theory Spec2Isabelle
  imports
    Complex_Main
    "HOL-Library.Char_ord"
    "HOL-Library.List_Lexorder"
    "HOL-Library.Option_ord"
    "HOL-Library.Product_Lexorder"
begin

chapter \<open>beets: matching local metadata against canonical releases and tracks\<close>

text \<open>
  A shallow embedding of \<^verbatim>\<open>beets/autotag/match.py\<close>. A Python float is the
  \<^typ>\<open>real\<close> it denotes and a subtraction of floats rounds to the nearest double, Python strings as
  \<^typ>\<open>string\<close>, an attribute that may be \<^verbatim>\<open>None\<close> as an \<^typ>\<open>'a option\<close>, a
  \<^verbatim>\<open>dict\<close> as an association list in insertion order, and every exception as a value
  of the type \<open>error\<close>.
\<close>

section \<open>Data model\<close>

subsection \<open>Recommendation (lines 68-76)\<close>

datatype Recommendation = none | low | medium | strong

text \<open>The values of the \<^verbatim>\<open>IntEnum\<close>; \<^verbatim>\<open>min\<close> on recommendations compares them.\<close>

fun rec_value :: "Recommendation \<Rightarrow> nat" where
  "rec_value none = 0"
| "rec_value low = 1"
| "rec_value Recommendation.medium = 2"
| "rec_value strong = 3"

definition rec_min :: "Recommendation \<Rightarrow> Recommendation \<Rightarrow> Recommendation" where
  "rec_min a b = (if rec_value b < rec_value a then b else a)"

subsection \<open>Exceptions\<close>

datatype error = AssertionError | TypeError | IndexError | AttributeError | ValueError | SolverError

subsection \<open>Python floats\<close>

text \<open>
  A Python float is an IEEE 754 double; here it is the real number it denotes.
  Comparisons of floats are comparisons of these reals. A subtraction is the exact
  difference rounded to the nearest double, ties to the even significand:
  \<open>binade\<close> is the binary exponent of a number (not below that of the subnormal
  doubles), \<open>ulp\<close> the spacing of the doubles there, and \<open>round_even\<close> rounds the
  number of spacings. Scores and thresholds lie in [0,1], so nothing overflows.
\<close>

definition binade :: "real \<Rightarrow> int" where
  "binade x = max \<lfloor>log 2 \<bar>x\<bar>\<rfloor> (- 1022)"

definition ulp :: "real \<Rightarrow> real" where
  "ulp x = 2 powr real_of_int (binade x - 52)"

definition round_even :: "real \<Rightarrow> int" where
  "round_even q =
     (if q - real_of_int \<lfloor>q\<rfloor> < 1 / 2 then \<lfloor>q\<rfloor>
      else if q - real_of_int \<lfloor>q\<rfloor> > 1 / 2 then \<lfloor>q\<rfloor> + 1
      else if even \<lfloor>q\<rfloor> then \<lfloor>q\<rfloor>
      else \<lfloor>q\<rfloor> + 1)"

definition float_round :: "real \<Rightarrow> real" where
  "float_round x = sgn x * (real_of_int (round_even (\<bar>x\<bar> / ulp x)) * ulp x)"

definition float_sub :: "real \<Rightarrow> real \<Rightarrow> real" where
  "float_sub x y = float_round (x - y)"

subsection \<open>Local records and canonical records\<close>

text \<open>
  \<^verbatim>\<open>Item\<close> (beets.library) with the fields that match.py reads. Item fields are typed
  and never \<^verbatim>\<open>None\<close>: an unset string reads as the empty string and an unset
  number as 0. \<open>obj_id\<close> is the identity of the Python object: items are hashed and
  compared by identity, so two items with the same tags are still two items.
\<close>

record Item =
  obj_id :: nat
  title :: string
  artist :: string
  album :: string
  albumartist :: string
  year :: int
  disctotal :: int
  mb_albumid :: string
  label :: string
  barcode :: string
  catalognum :: string
  country :: string
  media :: string
  albumdisambig :: string
  track :: int
  disc :: int
  length' :: real
  mb_trackid :: string
  comp :: bool

text \<open>\<^verbatim>\<open>TrackInfo\<close> (beets.autotag.hooks): every attribute is optional.\<close>

record TrackInfo =
  obj_id :: nat
  title :: "string option"
  artist :: "string option"
  track_id :: "string option"
  index :: "int option"
  medium_index :: "int option"
  medium :: "int option"
  length' :: "real option"

text \<open>
  Modelled from the spec: \<^verbatim>\<open>AlbumInfo\<close> is declared in beets.autotag.hooks, which is not
  among the sources. Section 3 of the specification lists its fields: artist, album
  title, a various-artists flag, the ordered tracks, and the release-level fields year,
  original year, country, label, catalogue number, media, medium count, disambiguation
  and release id.
\<close>

record AlbumInfo =
  artist :: "string option"
  album :: "string option"
  album_id :: "string option"
  va :: bool
  tracks :: "TrackInfo list"
  media :: "string option"
  mediums :: "int option"
  year :: "int option"
  original_year :: "int option"
  country :: "string option"
  label :: "string option"
  catalognum :: "string option"
  albumdisambig :: "string option"

subsection \<open>Distance\<close>

text \<open>
  Modelled from the spec: the class \<^verbatim>\<open>Distance\<close> is declared in beets.autotag.hooks, which
  is not among the sources. Section 3 of the specification describes it as a named
  multiset of penalty contributions, each in [0,1] and each under a category key, whose
  aggregate score is the normalised, per-category weighted sum of the contributions; a
  release-level Distance also owns the per-track Distances. Here a Distance is the list
  of its contributions in the order they were added, and the per-track Distances keyed
  by canonical track.
\<close>

datatype Distance =
  Distance (penalties: "(string \<times> real) list") (track_dists: "(TrackInfo \<times> Distance) list")

definition empty_distance :: Distance where
  "empty_distance = Distance [] []"

text \<open>Modelled from the spec: the category keys present in a Distance.\<close>

definition keys :: "Distance \<Rightarrow> string list" where
  "keys d = remdups (map fst (penalties d))"

text \<open>
  Modelled from the spec: the aggregate score, the weighted sum of the contributions
  over the weighted number of contributions (0 for a Distance without weight).
\<close>

definition raw_distance :: "(string \<Rightarrow> real) \<Rightarrow> Distance \<Rightarrow> real" where
  "raw_distance w d = sum_list (map (\<lambda>(k, v). w k * v) (penalties d))"

definition max_distance :: "(string \<Rightarrow> real) \<Rightarrow> Distance \<Rightarrow> real" where
  "max_distance w d = sum_list (map (\<lambda>(k, v). w k) (penalties d))"

definition score :: "(string \<Rightarrow> real) \<Rightarrow> Distance \<Rightarrow> real" where
  "score w d = (if max_distance w d = 0 then 0 else raw_distance w d / max_distance w d)"

text \<open>Modelled from the spec: every contribution is clamped to [0,1].\<close>

definition add :: "Distance \<Rightarrow> string \<Rightarrow> real \<Rightarrow> Distance" where
  "add d key v = Distance (penalties d @ [(key, max 0 (min 1 v))]) (track_dists d)"

text \<open>Modelled from the spec: a binary penalty, 1.0 or 0.0.\<close>

definition add_expr :: "Distance \<Rightarrow> string \<Rightarrow> bool \<Rightarrow> Distance" where
  "add_expr d key b = add d key (if b then 1 else 0)"

text \<open>Modelled from the spec: an exact-match penalty.\<close>

definition add_equality :: "Distance \<Rightarrow> string \<Rightarrow> 'a \<Rightarrow> 'a \<Rightarrow> Distance" where
  "add_equality d key x y = add d key (if x = y then 0 else 1)"

text \<open>
  Modelled from the spec: \<open>ratio(number1, number2)\<close>, where negative results clamp
  to 0 and the contribution stays within [0,1].
\<close>

definition add_ratio :: "Distance \<Rightarrow> string \<Rightarrow> real \<Rightarrow> real \<Rightarrow> Distance" where
  "add_ratio d key number1 number2 =
     add d key (if number2 = 0 then 0 else max (min number1 number2) 0 / number2)"

text \<open>Modelled from the spec: union/merge; the contributions of the other Distance are added.\<close>

definition update :: "Distance \<Rightarrow> Distance \<Rightarrow> Distance" where
  "update d other = Distance (penalties d @ penalties other) (track_dists d)"

text \<open>The contributions that a Distance holds under one category key, in order.\<close>

definition contributions :: "string \<Rightarrow> Distance \<Rightarrow> real list" where
  "contributions key d = map snd (filter (\<lambda>(k, v). k = key) (penalties d))"

subsection \<open>Candidate matches and proposals (lines 84-86)\<close>

datatype Match =
  AlbumMatch (distance: Distance) AlbumInfo "(Item \<times> TrackInfo) list" "Item list" "TrackInfo list"
| TrackMatch (distance: Distance) TrackInfo

record Proposal =
  candidates :: "Match list"
  recommendation :: Recommendation

subsection \<open>Configuration\<close>

text \<open>
  The configuration views that match.py reads, as values. \<open>max_rec\<close> holds the
  per-category ceilings already converted by \<^verbatim>\<open>as_choice\<close>.
\<close>

record config =
  strong_rec_thresh :: real
  medium_rec_thresh :: real
  rec_gap_thresh :: real
  max_rec :: "(string \<times> Recommendation) list"
  distance_weights :: "string \<Rightarrow> real"
  track_length_grace :: real
  track_length_max :: real
  required :: "string list"
  ignored :: "string list"
  preferred_media :: "string list"
  preferred_countries :: "string list"
  preferred_original_year :: bool
  timid :: bool
  extra_tags :: "string list"

subsection \<open>External collaborators\<close>

text \<open>
  What match.py calls outside the repository's matching code, as parameters: the string
  dissimilarity behind \<^verbatim>\<open>Distance.add_string\<close>, the priority penalty of a value against
  a list of regular expressions behind \<^verbatim>\<open>Distance.add_priority\<close>, the plugin hooks, the
  assignment solver \<^verbatim>\<open>lap.lapjv\<close> (its third result, or an exception), the lookups and
  searches of the metadata sources, and the current year. Python's own \<^verbatim>\<open>str.lower\<close>,
  which knows every cased character of Unicode, is a parameter as well.
\<close>

datatype tag_value = Str string | Num int

record env =
  string_dist :: "string option \<Rightarrow> string option \<Rightarrow> real"
  priority_dist :: "string \<Rightarrow> string list \<Rightarrow> real"
  plugins_track_distance :: "Item \<Rightarrow> TrackInfo \<Rightarrow> Distance"
  plugins_album_distance :: "Item list \<Rightarrow> AlbumInfo \<Rightarrow> (Item \<times> TrackInfo) list \<Rightarrow> Distance"
  lapjv :: "real list list \<Rightarrow> error + int list"
  album_for_mbid :: "string \<Rightarrow> AlbumInfo option"
  albums_for_id :: "string \<Rightarrow> AlbumInfo list"
  album_candidates ::
    "Item list \<Rightarrow> string \<Rightarrow> string \<Rightarrow> bool \<Rightarrow> (string \<times> tag_value) list option \<Rightarrow> AlbumInfo list"
  tracks_for_id :: "string \<Rightarrow> TrackInfo list"
  item_candidates :: "Item \<Rightarrow> string \<Rightarrow> string \<Rightarrow> TrackInfo list"
  today_year :: int
  str_lower :: "string \<Rightarrow> string"

text \<open>\<^verbatim>\<open>Distance.add_string\<close>: the string dissimilarity of the two values is added.\<close>

definition add_string :: "env \<Rightarrow> Distance \<Rightarrow> string \<Rightarrow> string option \<Rightarrow> string option \<Rightarrow> Distance" where
  "add_string e d key str1 str2 = add d key (string_dist e str1 str2)"

text \<open>
  Modelled from the spec: a priority-rank penalty of the value against the patterns
  (an earlier pattern gives a lower penalty, no match the maximum); the rank itself is
  the collaborator's.
\<close>

definition add_priority :: "env \<Rightarrow> Distance \<Rightarrow> string \<Rightarrow> string \<Rightarrow> string list \<Rightarrow> Distance" where
  "add_priority e d key v options = add d key (priority_dist e v options)"

text \<open>Modelled from the spec: two numbers are compared as a numeric difference.\<close>

definition add_number :: "Distance \<Rightarrow> string \<Rightarrow> int \<Rightarrow> int \<Rightarrow> Distance" where
  "add_number d key number1 number2 = add d key (real_of_int \<bar>number1 - number2\<bar>)"

subsection \<open>Python truthiness, strings and dicts\<close>

text \<open>An optional string is truthy when it is present and not empty.\<close>

definition truthy_str :: "string option \<Rightarrow> bool" where
  "truthy_str s = (case s of None \<Rightarrow> False | Some x \<Rightarrow> x \<noteq> [])"

text \<open>An optional number is truthy when it is present and not zero.\<close>

definition truthy_num :: "'a::zero option \<Rightarrow> bool" where
  "truthy_num n = (case n of None \<Rightarrow> False | Some x \<Rightarrow> x \<noteq> 0)"

text \<open>
  Lower case for strings of ASCII characters, on which it is what \<^verbatim>\<open>str.lower\<close>
  does. Only the collaborators of the scenarios use it, on such strings.
\<close>

definition ascii_lower_char :: "char \<Rightarrow> char" where
  "ascii_lower_char c =
     (case map_of (zip ''ABCDEFGHIJKLMNOPQRSTUVWXYZ'' ''abcdefghijklmnopqrstuvwxyz'') c of
        None \<Rightarrow> c
      | Some l \<Rightarrow> l)"

definition ascii_lower :: "string \<Rightarrow> string" where
  "ascii_lower s = map ascii_lower_char s"

text \<open>
  A dict as an association list with distinct keys in insertion order: \<^verbatim>\<open>d[k] = v\<close>
  replaces the value of a key that is present and appends a new key.
\<close>

fun dict_set :: "('k \<times> 'v) list \<Rightarrow> 'k \<Rightarrow> 'v \<Rightarrow> ('k \<times> 'v) list" where
  "dict_set [] k v = [(k, v)]"
| "dict_set ((k', v') # kvs) k v =
     (if k' = k then (k, v) # kvs else (k', v') # dict_set kvs k v)"

section \<open>The track distance (lines 55-59, 162-227)\<close>

definition VA_ARTISTS :: "string list" where
  "VA_ARTISTS = ['''', ''various artists'', ''various'', ''va'', ''unknown'']"

definition track_index_changed :: "Item \<Rightarrow> TrackInfo \<Rightarrow> bool" where
  "track_index_changed item track_info =
     (Some (track item) \<notin> {medium_index track_info, index track_info})"

definition track_distance :: "config \<Rightarrow> env \<Rightarrow> Item \<Rightarrow> TrackInfo \<Rightarrow> bool \<Rightarrow> Distance" where
  "track_distance cfg e item track_info incl_artist =
     (let dist0 = empty_distance;
          dist1 = (case TrackInfo.length' track_info of
                     Some info_length \<Rightarrow>
                       if info_length \<noteq> 0
                       then add_ratio dist0 ''track_length''
                              (float_sub \<bar>float_sub (Item.length' item) info_length\<bar>
                                 (track_length_grace cfg))
                              (track_length_max cfg)
                       else dist0
                   | None \<Rightarrow> dist0);
          dist2 = add_string e dist1 ''track_title'' (Some (Item.title item)) (TrackInfo.title track_info);
          dist3 = (if incl_artist \<and> truthy_str (TrackInfo.artist track_info)
                      \<and> str_lower e (Item.artist item) \<notin> set VA_ARTISTS
                   then add_string e dist2 ''track_artist''
                          (Some (Item.artist item)) (TrackInfo.artist track_info)
                   else dist2);
          dist4 = (if truthy_num (index track_info) \<and> track item \<noteq> 0
                   then add_expr dist3 ''track_index'' (track_index_changed item track_info)
                   else dist3);
          dist5 = (if mb_trackid item \<noteq> []
                   then add_expr dist4 ''track_id'' (Some (mb_trackid item) \<noteq> track_id track_info)
                   else dist4);
          dist6 = (if truthy_num (medium track_info) \<and> disc item \<noteq> 0
                   then add_expr dist5 ''medium'' (Some (disc item) \<noteq> medium track_info)
                   else dist5)
      in update dist6 (plugins_track_distance e item track_info))"

section \<open>The optimal track assignment (lines 130-159)\<close>

text \<open>\<^verbatim>\<open>xs[i]\<close>: a negative index counts from the end, an index out of range raises.\<close>

definition py_index :: "'a list \<Rightarrow> int \<Rightarrow> error + 'a" where
  "py_index xs i =
     (if 0 \<le> i \<and> i < int (length xs) then Inr (xs ! nat i)
      else if i < 0 \<and> - int (length xs) \<le> i then Inr (xs ! nat (int (length xs) + i))
      else Inl IndexError)"

text \<open>
  Lines 150-154: the dict comprehension over \<^verbatim>\<open>zip(assigned_item_idxs, tracks)\<close>, which
  skips the tracks assigned -1.
\<close>

fun build_mapping ::
  "Item list \<Rightarrow> (int \<times> TrackInfo) list \<Rightarrow> (Item \<times> TrackInfo) list \<Rightarrow> error + (Item \<times> TrackInfo) list" where
  "build_mapping items [] mapping = Inr mapping"
| "build_mapping items ((iidx, t) # rest) mapping =
     (if iidx \<noteq> - 1
      then (case py_index items iidx of
              Inl err \<Rightarrow> Inl err
            | Inr item \<Rightarrow> build_mapping items rest (dict_set mapping item t))
      else build_mapping items rest mapping)"

text \<open>The sort key of line 156; tuples of numbers and strings compare lexicographically.\<close>

definition item_key :: "Item \<Rightarrow> int \<times> int \<times> string" where
  "item_key i = (disc i, track i, Item.title i)"

text \<open>
  The sort key of line 158. Its components may be \<^verbatim>\<open>None\<close>, and Python's \<^verbatim>\<open><\<close> raises
  TypeError when one of its operands is \<^verbatim>\<open>None\<close>. Two tuples are compared at their
  first components that differ; equal tuples are not less.
\<close>

definition track_key :: "TrackInfo \<Rightarrow> int option \<times> string option" where
  "track_key t = (index t, TrackInfo.title t)"

fun opt_lt :: "'a::linorder option \<Rightarrow> 'a option \<Rightarrow> error + bool" where
  "opt_lt (Some a) (Some b) = Inr (a < b)"
| "opt_lt _ _ = Inl TypeError"

fun tuple_lt :: "int option \<times> string option \<Rightarrow> int option \<times> string option \<Rightarrow> error + bool" where
  "tuple_lt (i1, t1) (i2, t2) =
     (if i1 \<noteq> i2 then opt_lt i1 i2
      else if t1 \<noteq> t2 then opt_lt t1 t2
      else Inr False)"

text \<open>
  \<^verbatim>\<open>list.sort\<close> with the key of line 158. Python raises TypeError as soon as the sort
  compares two keys that cannot be compared; which pairs it compares is the sort's own
  business, so here the error is reported whenever the list holds such a pair. When it
  holds none, every comparison sort returns the keys in ascending order.
\<close>

definition sort_tracks :: "TrackInfo list \<Rightarrow> error + TrackInfo list" where
  "sort_tracks ts =
     (if \<exists>a \<in> set ts. \<exists>b \<in> set ts. tuple_lt (track_key a) (track_key b) = Inl TypeError
      then Inl TypeError
      else Inr (sort_key track_key ts))"

text \<open>
  \<^verbatim>\<open>list(set(items) - mapping.keys())\<close> is modelled in the order of first occurrence;
  Python's order is that of the set, and the sort that follows is the only promise.
\<close>

definition assign_items ::
  "config \<Rightarrow> env \<Rightarrow> Item list \<Rightarrow> TrackInfo list \<Rightarrow>
   error + ((Item \<times> TrackInfo) list \<times> Item list \<times> TrackInfo list)" where
  "assign_items cfg e items tracks' =
     (let costs = map (\<lambda>i. map (\<lambda>t. score (distance_weights cfg) (track_distance cfg e i t False)) tracks') items
      in case lapjv e costs of
           Inl err \<Rightarrow> Inl err
         | Inr assigned_item_idxs \<Rightarrow>
             (case build_mapping items (zip assigned_item_idxs tracks') [] of
                Inl err \<Rightarrow> Inl err
              | Inr mapping \<Rightarrow>
                  (let extra_items =
                         sort_key item_key
                           (filter (\<lambda>i. i \<notin> set (map fst mapping)) (remdups items))
                   in case sort_tracks
                             (filter (\<lambda>t. t \<notin> set (map snd mapping)) (remdups tracks')) of
                        Inl err \<Rightarrow> Inl err
                      | Inr extra_tracks \<Rightarrow> Inr (mapping, extra_items, extra_tracks))))"

section \<open>The consensus extractor (lines 92-127)\<close>

text \<open>
  Modelled from the spec: \<^verbatim>\<open>plurality\<close> is imported from beets.util, which is not among
  the sources. Section 4.1 of the specification: the plurality value of a non-empty
  sequence of values (here its first value and the rest) is the most frequent value,
  ties broken by first-encountered order; it comes with its frequency.
\<close>

definition plurality :: "'a \<Rightarrow> 'a list \<Rightarrow> 'a \<times> nat" where
  "plurality x xs =
     (let objs = x # xs;
          v = fold (\<lambda>y best. if count_list objs best < count_list objs y then y else best) objs x
      in (v, count_list objs v))"

text \<open>
  The two dicts that \<^verbatim>\<open>current_metadata\<close> returns, with the keys of its list
  \<^verbatim>\<open>fields\<close>.
\<close>

record Likelies =
  artist :: string
  album :: string
  albumartist :: string
  year :: int
  disctotal :: int
  mb_albumid :: string
  label :: string
  barcode :: string
  catalognum :: string
  country :: string
  media :: string
  albumdisambig :: string

record Consensus =
  artist :: bool
  album :: bool
  albumartist :: bool
  year :: bool
  disctotal :: bool
  mb_albumid :: bool
  label :: bool
  barcode :: bool
  catalognum :: bool
  country :: bool
  media :: bool
  albumdisambig :: bool

text \<open>
  The body of the loop (lines 119-121) for one field, whose values are read from a
  first item and the rest: the plurality value, and whether its frequency is the number
  of values. An Item is an object without a length, hence truthy: the filter
  \<^verbatim>\<open>if item\<close> keeps every item.
\<close>

definition likely :: "'a \<Rightarrow> 'a list \<Rightarrow> 'a" where
  "likely x xs = fst (plurality x xs)"

definition agreed :: "'a \<Rightarrow> 'a list \<Rightarrow> bool" where
  "agreed x xs = (snd (plurality x xs) = length (x # xs))"

fun current_metadata :: "Item list \<Rightarrow> error + (Likelies \<times> Consensus)" where
  "current_metadata [] = Inl AssertionError"
| "current_metadata (item # rest) =
     (let likelies =
            \<lparr>Likelies.artist = likely (Item.artist item) (map Item.artist rest),
             album = likely (Item.album item) (map Item.album rest),
             albumartist = likely (Item.albumartist item) (map Item.albumartist rest),
             year = likely (Item.year item) (map Item.year rest),
             disctotal = likely (Item.disctotal item) (map Item.disctotal rest),
             mb_albumid = likely (Item.mb_albumid item) (map Item.mb_albumid rest),
             label = likely (Item.label item) (map Item.label rest),
             barcode = likely (Item.barcode item) (map Item.barcode rest),
             catalognum = likely (Item.catalognum item) (map Item.catalognum rest),
             country = likely (Item.country item) (map Item.country rest),
             media = likely (Item.media item) (map Item.media rest),
             albumdisambig = likely (Item.albumdisambig item) (map Item.albumdisambig rest)\<rparr>;
          consensus =
            \<lparr>Consensus.artist = agreed (Item.artist item) (map Item.artist rest),
             album = agreed (Item.album item) (map Item.album rest),
             albumartist = agreed (Item.albumartist item) (map Item.albumartist rest),
             year = agreed (Item.year item) (map Item.year rest),
             disctotal = agreed (Item.disctotal item) (map Item.disctotal rest),
             mb_albumid = agreed (Item.mb_albumid item) (map Item.mb_albumid rest),
             label = agreed (Item.label item) (map Item.label rest),
             barcode = agreed (Item.barcode item) (map Item.barcode rest),
             catalognum = agreed (Item.catalognum item) (map Item.catalognum rest),
             country = agreed (Item.country item) (map Item.country rest),
             media = agreed (Item.media item) (map Item.media rest),
             albumdisambig = agreed (Item.albumdisambig item) (map Item.albumdisambig rest)\<rparr>
      in if Consensus.albumartist consensus \<and> Likelies.albumartist likelies \<noteq> []
         then Inr (likelies\<lparr>Likelies.artist := Likelies.albumartist likelies\<rparr>, consensus)
         else Inr (likelies, consensus))"

text \<open>The words of the specification: every value is identical; a most frequent value among those present.\<close>

definition unanimous :: "'a list \<Rightarrow> bool" where
  "unanimous vs = (\<forall>x \<in> set vs. \<forall>y \<in> set vs. x = y)"

definition most_frequent :: "'a \<Rightarrow> 'a list \<Rightarrow> bool" where
  "most_frequent v vs = (v \<in> set vs \<and> (\<forall>y \<in> set vs. count_list vs y \<le> count_list vs v))"

section \<open>The release distance (lines 230-343)\<close>

text \<open>\<^verbatim>\<open>x or default\<close> on an optional number, and the number read under a truthiness guard.\<close>

definition num_or :: "int option \<Rightarrow> int \<Rightarrow> int" where
  "num_or n d = (case n of None \<Rightarrow> d | Some x \<Rightarrow> if x = 0 then d else x)"

definition num_val :: "int option \<Rightarrow> int" where
  "num_val n = num_or n 0"

text \<open>Line 259: the regular expression built around a preferred media pattern.\<close>

definition media_option :: "string \<Rightarrow> string" where
  "media_option pat = ''('' @ [CHR 0x5C] @ ''d+x)?('' @ pat @ '')''"

text \<open>Lines 327-330: the Track Distance of every pair, stored by track and folded in.\<close>

fun add_tracks ::
  "config \<Rightarrow> env \<Rightarrow> bool \<Rightarrow> (Item \<times> TrackInfo) list \<Rightarrow> Distance \<Rightarrow> Distance" where
  "add_tracks cfg e is_va [] d = d"
| "add_tracks cfg e is_va ((item, track_info) # rest) d =
     (let track_dist = track_distance cfg e item track_info is_va;
          d' = Distance (penalties d) (dict_set (track_dists d) track_info track_dist)
      in add_tracks cfg e is_va rest
           (add d' ''tracks'' (score (distance_weights cfg) track_dist)))"

text \<open>Lines 333-338: one full penalty per iteration of \<^verbatim>\<open>range(n)\<close>.\<close>

fun add_times :: "nat \<Rightarrow> string \<Rightarrow> Distance \<Rightarrow> Distance" where
  "add_times 0 key d = d"
| "add_times (Suc n) key d = add_times n key (add d key 1)"

definition distance ::
  "config \<Rightarrow> env \<Rightarrow> Item list \<Rightarrow> AlbumInfo \<Rightarrow> (Item \<times> TrackInfo) list \<Rightarrow> error + Distance" where
  "distance cfg e items album_info mapping =
     (case current_metadata items of
        Inl err \<Rightarrow> Inl err
      | Inr (likelies, _) \<Rightarrow>
          Inr (let dist0 = empty_distance;
               dist1 = (if \<not> va album_info
                        then add_string e dist0 ''artist''
                               (Some (Likelies.artist likelies)) (AlbumInfo.artist album_info)
                        else dist0);
               dist2 = add_string e dist1 ''album''
                         (Some (Likelies.album likelies)) (AlbumInfo.album album_info);
               dist3 = (case AlbumInfo.media album_info of
                          None \<Rightarrow> dist2
                        | Some m \<Rightarrow>
                            if m = [] then dist2
                            else if preferred_media cfg \<noteq> []
                            then add_priority e dist2 ''media'' m
                                   (map media_option (preferred_media cfg))
                            else if Likelies.media likelies \<noteq> []
                            then add_equality dist2 ''media'' m (Likelies.media likelies)
                            else dist2);
               dist4 = (if Likelies.disctotal likelies \<noteq> 0 \<and> truthy_num (mediums album_info)
                        then add_number dist3 ''mediums''
                               (Likelies.disctotal likelies) (num_val (mediums album_info))
                        else dist3);
               dist5 = (if truthy_num (AlbumInfo.year album_info) \<and> preferred_original_year cfg
                        then (let original = num_or (original_year album_info) 1889;
                                  diff = \<bar>num_val (AlbumInfo.year album_info) - original\<bar>;
                                  diff_max = \<bar>today_year e - original\<bar>
                              in add_ratio dist4 ''year'' (real_of_int diff) (real_of_int diff_max))
                        else if Likelies.year likelies \<noteq> 0 \<and> truthy_num (AlbumInfo.year album_info)
                        then (if Some (Likelies.year likelies)
                                   \<in> {AlbumInfo.year album_info, original_year album_info}
                              then add dist4 ''year'' 0
                              else if truthy_num (original_year album_info)
                              then (let diff = \<bar>Likelies.year likelies - num_val (AlbumInfo.year album_info)\<bar>;
                                        diff_max = \<bar>today_year e - num_val (original_year album_info)\<bar>
                                    in add_ratio dist4 ''year'' (real_of_int diff) (real_of_int diff_max))
                              else add dist4 ''year'' 1)
                        else dist4);
               dist6 = (case AlbumInfo.country album_info of
                          None \<Rightarrow> dist5
                        | Some c \<Rightarrow>
                            if c = [] then dist5
                            else if preferred_countries cfg \<noteq> []
                            then add_priority e dist5 ''country'' c (preferred_countries cfg)
                            else if Likelies.country likelies \<noteq> []
                            then add_string e dist5 ''country''
                                   (Some (Likelies.country likelies)) (Some c)
                            else dist5);
               dist7 = (if Likelies.label likelies \<noteq> [] \<and> truthy_str (AlbumInfo.label album_info)
                        then add_string e dist6 ''label''
                               (Some (Likelies.label likelies)) (AlbumInfo.label album_info)
                        else dist6);
               dist8 = (if Likelies.catalognum likelies \<noteq> []
                           \<and> truthy_str (AlbumInfo.catalognum album_info)
                        then add_string e dist7 ''catalognum''
                               (Some (Likelies.catalognum likelies)) (AlbumInfo.catalognum album_info)
                        else dist7);
               dist9 = (if Likelies.albumdisambig likelies \<noteq> []
                           \<and> truthy_str (AlbumInfo.albumdisambig album_info)
                        then add_string e dist8 ''albumdisambig''
                               (Some (Likelies.albumdisambig likelies))
                               (AlbumInfo.albumdisambig album_info)
                        else dist8);
               dist10 = (if Likelies.mb_albumid likelies \<noteq> []
                         then add_equality dist9 ''album_id''
                                (Some (Likelies.mb_albumid likelies)) (album_id album_info)
                         else dist9);
               dist11 = add_tracks cfg e (va album_info) mapping
                          (Distance (penalties dist10) []);
               dist12 = add_times (length (tracks album_info) - length mapping)
                          ''missing_tracks'' dist11;
               dist13 = add_times (length items - length mapping) ''unmatched_tracks'' dist12
           in update dist13 (plugins_album_distance e items album_info mapping)))"

section \<open>Lookup by the items' own album id (lines 346-367)\<close>

text \<open>
  The result of \<^verbatim>\<open>match_by_id\<close> together with the ids for which it called
  \<^verbatim>\<open>hooks.album_for_mbid\<close>.
\<close>

definition match_by_id :: "env \<Rightarrow> Item list \<Rightarrow> AlbumInfo option \<times> string list" where
  "match_by_id e items =
     (let albumids = map Item.mb_albumid (filter (\<lambda>item. Item.mb_albumid item \<noteq> []) items)
      in case albumids of
           [] \<Rightarrow> (None, [])
         | first # others \<Rightarrow>
             if \<exists>other \<in> set others. other \<noteq> first then (None, [])
             else (album_for_mbid e first, [first]))"

section \<open>The recommendation classifier (lines 370-424)\<close>

text \<open>
  Lines 384-403, basic distance thresholding on a non-empty list. \<open>match_score\<close> is
  the float that a comparison or a difference reads from a match's Distance; the
  difference of line 396 is a subtraction of floats;
  \<open>None\<close> is the immediate \<^verbatim>\<open>return Recommendation.none\<close> of line 403.
\<close>

definition match_score :: "config \<Rightarrow> Match \<Rightarrow> real" where
  "match_score cfg m = score (distance_weights cfg) (Match.distance m)"

definition threshold_rec :: "config \<Rightarrow> Match list \<Rightarrow> Recommendation option" where
  "threshold_rec cfg results =
     (let min_dist = match_score cfg (results ! 0) in
      if min_dist < strong_rec_thresh cfg then Some strong
      else if min_dist \<le> medium_rec_thresh cfg then Some Recommendation.medium
      else if length results = 1 then Some low
      else if float_sub (match_score cfg (results ! 1)) min_dist \<ge> rec_gap_thresh cfg
      then Some low
      else None)"

text \<open>Lines 407-410: the keys of the best candidate, and for an AlbumMatch those of its tracks.\<close>

fun collected_keys :: "Match \<Rightarrow> string list" where
  "collected_keys (AlbumMatch min_dist _ _ _ _) =
     remdups (keys min_dist @ concat (map (\<lambda>(_, track_dist). keys track_dist) (track_dists min_dist)))"
| "collected_keys (TrackMatch min_dist _) = remdups (keys min_dist)"

text \<open>Lines 411-422: the loop over the collected keys.\<close>

fun apply_max_rec :: "(string \<times> Recommendation) list \<Rightarrow> string list \<Rightarrow> Recommendation \<Rightarrow> Recommendation" where
  "apply_max_rec max_rec_view [] rec = rec"
| "apply_max_rec max_rec_view (key # ks) rec =
     apply_max_rec max_rec_view ks
       (case map_of max_rec_view key of
          None \<Rightarrow> rec
        | Some mx \<Rightarrow> rec_min rec mx)"

definition downgrade :: "config \<Rightarrow> Match \<Rightarrow> Recommendation \<Rightarrow> Recommendation" where
  "downgrade cfg best rec = apply_max_rec (max_rec cfg) (collected_keys best) rec"

definition recommendation' :: "config \<Rightarrow> Match list \<Rightarrow> Recommendation" where
  "recommendation' cfg results =
     (if results = [] then none
      else case threshold_rec cfg results of
             None \<Rightarrow> none
           | Some rec \<Rightarrow> downgrade cfg (results ! 0) rec)"

text \<open>The configured ceilings that apply to a best candidate.\<close>

definition ceilings :: "config \<Rightarrow> Match \<Rightarrow> Recommendation list" where
  "ceilings cfg best = List.map_filter (map_of (max_rec cfg)) (collected_keys best)"

section \<open>The candidate accumulator (lines 430-484)\<close>

text \<open>\<^verbatim>\<open>sorted\<close> is stable, and so is \<open>sort_key\<close>; Distances compare by their scores.\<close>

definition sort_candidates :: "config \<Rightarrow> Match list \<Rightarrow> Match list" where
  "sort_candidates cfg ms = sort_key (match_score cfg) ms"

text \<open>
  \<^verbatim>\<open>getattr(info, req_tag) is None\<close> on the fields of the release record; a name that
  is no attribute raises AttributeError.
\<close>

definition attribute_names :: "string list" where
  "attribute_names =
     [''artist'', ''album'', ''album_id'', ''va'', ''tracks'', ''media'', ''mediums'', ''year'',
      ''original_year'', ''country'', ''label'', ''catalognum'', ''albumdisambig'']"

definition attr_is_none :: "AlbumInfo \<Rightarrow> string \<Rightarrow> error + bool" where
  "attr_is_none album_info name =
     (if name = ''artist'' then Inr (AlbumInfo.artist album_info = None)
      else if name = ''album'' then Inr (AlbumInfo.album album_info = None)
      else if name = ''album_id'' then Inr (album_id album_info = None)
      else if name = ''va'' then Inr False
      else if name = ''tracks'' then Inr False
      else if name = ''media'' then Inr (AlbumInfo.media album_info = None)
      else if name = ''mediums'' then Inr (mediums album_info = None)
      else if name = ''year'' then Inr (AlbumInfo.year album_info = None)
      else if name = ''original_year'' then Inr (original_year album_info = None)
      else if name = ''country'' then Inr (AlbumInfo.country album_info = None)
      else if name = ''label'' then Inr (AlbumInfo.label album_info = None)
      else if name = ''catalognum'' then Inr (AlbumInfo.catalognum album_info = None)
      else if name = ''albumdisambig'' then Inr (AlbumInfo.albumdisambig album_info = None)
      else Inl AttributeError)"

text \<open>Lines 460-465: \<open>Inr True\<close> when the loop returns at a required tag that is missing.\<close>

fun missing_required :: "AlbumInfo \<Rightarrow> string list \<Rightarrow> error + bool" where
  "missing_required album_info [] = Inr False"
| "missing_required album_info (req_tag # rest) =
     (case attr_is_none album_info req_tag of
        Inl err \<Rightarrow> Inl err
      | Inr is_none \<Rightarrow> if is_none then Inr True else missing_required album_info rest)"

text \<open>
  The output dictionary is keyed by album id, which may be \<^verbatim>\<open>None\<close>. The function
  returns the dictionary as it leaves it.
\<close>

type_synonym results = "(string option \<times> Match) list"

definition add_candidate ::
  "config \<Rightarrow> env \<Rightarrow> Item list \<Rightarrow> results \<Rightarrow> AlbumInfo \<Rightarrow> error + results" where
  "add_candidate cfg e items results album_info =
     (if tracks album_info = [] then Inr results
      else if truthy_str (album_id album_info) \<and> album_id album_info \<in> set (map fst results)
      then Inr results
      else case missing_required album_info (required cfg) of
             Inl err \<Rightarrow> Inl err
           | Inr missing \<Rightarrow>
               if missing then Inr results
               else case assign_items cfg e items (tracks album_info) of
                      Inl err \<Rightarrow> Inl err
                    | Inr (mapping, extra_items, extra_tracks) \<Rightarrow>
                        (case distance cfg e items album_info mapping of
                           Inl err \<Rightarrow> Inl err
                         | Inr d \<Rightarrow>
                             if \<exists>penalty \<in> set (ignored cfg). penalty \<in> set (keys d)
                             then Inr results
                             else Inr (dict_set results (album_id album_info)
                                         (AlbumMatch d album_info mapping extra_items extra_tracks))))"

text \<open>The loops that offer one candidate after the other; an exception ends them.\<close>

fun add_candidates ::
  "config \<Rightarrow> env \<Rightarrow> Item list \<Rightarrow> results \<Rightarrow> AlbumInfo list \<Rightarrow> error + results" where
  "add_candidates cfg e items results [] = Inr results"
| "add_candidates cfg e items results (album_info # rest) =
     (case add_candidate cfg e items results album_info of
        Inl err \<Rightarrow> Inl err
      | Inr results' \<Rightarrow> add_candidates cfg e items results' rest)"

section \<open>The entry points (lines 487-639)\<close>

text \<open>Lines 574-576 and 637-639: sort, classify, and return both.\<close>

definition propose :: "config \<Rightarrow> Match list \<Rightarrow> Proposal" where
  "propose cfg ms =
     (let candidates_sorted = sort_candidates cfg ms
      in \<lparr>candidates = candidates_sorted, recommendation = recommendation' cfg candidates_sorted\<rparr>)"

text \<open>\<^verbatim>\<open>likelies.items()\<close>, for the extra search terms of lines 552-556.\<close>

definition likelies_items :: "Likelies \<Rightarrow> (string \<times> tag_value) list" where
  "likelies_items l =
     [(''artist'', Str (Likelies.artist l)), (''album'', Str (Likelies.album l)),
      (''albumartist'', Str (Likelies.albumartist l)), (''year'', Num (Likelies.year l)),
      (''disctotal'', Num (Likelies.disctotal l)), (''mb_albumid'', Str (Likelies.mb_albumid l)),
      (''label'', Str (Likelies.label l)), (''barcode'', Str (Likelies.barcode l)),
      (''catalognum'', Str (Likelies.catalognum l)), (''country'', Str (Likelies.country l)),
      (''media'', Str (Likelies.media l)), (''albumdisambig'', Str (Likelies.albumdisambig l))]"

text \<open>Lines 546-576: the search by metadata, from the candidates found so far.\<close>

definition search_albums ::
  "config \<Rightarrow> env \<Rightarrow> Item list \<Rightarrow> Likelies \<Rightarrow> Consensus \<Rightarrow> string option \<Rightarrow> string option \<Rightarrow>
   results \<Rightarrow> error + results" where
  "search_albums cfg e items likelies consensus search_artist search_album found =
     (let terms = (case (search_artist, search_album) of
                     (Some a, Some b) \<Rightarrow>
                       if a \<noteq> [] \<and> b \<noteq> [] then (a, b)
                       else (Likelies.artist likelies, Likelies.album likelies)
                   | _ \<Rightarrow> (Likelies.artist likelies, Likelies.album likelies));
          tags = (if extra_tags cfg \<noteq> []
                  then Some (filter (\<lambda>(k, v). k \<in> set (extra_tags cfg)) (likelies_items likelies))
                  else None);
          va_likely = (\<not> Consensus.artist consensus \<or> str_lower e (fst terms) \<in> set VA_ARTISTS
                       \<or> (\<exists>item \<in> set items. comp item))
      in add_candidates cfg e items found
           (album_candidates e items (fst terms) (snd terms) va_likely tags))"

definition tag_album ::
  "config \<Rightarrow> env \<Rightarrow> Item list \<Rightarrow> string option \<Rightarrow> string option \<Rightarrow> string list \<Rightarrow>
   error + (string \<times> string \<times> Proposal)" where
  "tag_album cfg e items search_artist search_album search_ids =
     (case current_metadata items of
        Inl err \<Rightarrow> Inl err
      | Inr (likelies, consensus) \<Rightarrow>
          (let cur_artist = Likelies.artist likelies;
               cur_album = Likelies.album likelies
           in if search_ids \<noteq> []
              then (case add_candidates cfg e items [] (concat (map (albums_for_id e) search_ids)) of
                      Inl err \<Rightarrow> Inl err
                    | Inr found \<Rightarrow> Inr (cur_artist, cur_album, propose cfg (map snd found)))
              else (case (case fst (match_by_id e items) of
                            None \<Rightarrow> Inr []
                          | Some id_info \<Rightarrow> add_candidate cfg e items [] id_info) of
                      Inl err \<Rightarrow> Inl err
                    | Inr by_id \<Rightarrow>
                        if by_id \<noteq> [] \<and> \<not> timid cfg
                           \<and> recommendation' cfg (map snd by_id) = strong
                        then Inr (cur_artist, cur_album,
                                  \<lparr>candidates = map snd by_id,
                                   recommendation = recommendation' cfg (map snd by_id)\<rparr>)
                        else (case search_albums cfg e items likelies consensus
                                     search_artist search_album by_id of
                                Inl err \<Rightarrow> Inl err
                              | Inr found \<Rightarrow>
                                  Inr (cur_artist, cur_album, propose cfg (map snd found))))))"

text \<open>
  Lines 600-615: the loop over the tracks found by id. \<open>Inl\<close> is the early return
  of line 615; otherwise the candidates and the last recommendation are handed on.
\<close>

type_synonym track_results = "(string option \<times> Match) list"

fun match_track_ids ::
  "config \<Rightarrow> env \<Rightarrow> Item \<Rightarrow> TrackInfo list \<Rightarrow> track_results \<times> Recommendation option \<Rightarrow>
   Proposal + track_results \<times> Recommendation option" where
  "match_track_ids cfg e item [] state = Inr state"
| "match_track_ids cfg e item (track_info # rest) (found, _) =
     (let found' = dict_set found (track_id track_info)
                     (TrackMatch (track_distance cfg e item track_info True) track_info);
          rec = recommendation' cfg (sort_candidates cfg (map snd found'))
      in if rec = strong \<and> \<not> timid cfg
         then Inl \<lparr>candidates = sort_candidates cfg (map snd found'), recommendation = rec\<rparr>
         else match_track_ids cfg e item rest (found', Some rec))"

text \<open>Lines 631-633: the loop over the tracks found by search.\<close>

fun add_track_candidates ::
  "config \<Rightarrow> env \<Rightarrow> Item \<Rightarrow> TrackInfo list \<Rightarrow> track_results \<Rightarrow> track_results" where
  "add_track_candidates cfg e item [] found = found"
| "add_track_candidates cfg e item (track_info # rest) found =
     add_track_candidates cfg e item rest
       (dict_set found (track_id track_info)
          (TrackMatch (track_distance cfg e item track_info True) track_info))"

definition tag_item ::
  "config \<Rightarrow> env \<Rightarrow> Item \<Rightarrow> string option \<Rightarrow> string option \<Rightarrow> string list option \<Rightarrow>
   error + Proposal" where
  "tag_item cfg e item search_artist search_title search_ids =
     (let by_ids = (case search_ids of None \<Rightarrow> False | Some ids \<Rightarrow> ids \<noteq> []);
          trackids = (case search_ids of
                        None \<Rightarrow> filter (\<lambda>t. t \<noteq> []) [mb_trackid item]
                      | Some ids \<Rightarrow>
                          if ids \<noteq> [] then ids else filter (\<lambda>t. t \<noteq> []) [mb_trackid item])
      in case match_track_ids cfg e item (concat (map (tracks_for_id e) trackids)) ([], None) of
           Inl proposal \<Rightarrow> Inr proposal
         | Inr (found, rec) \<Rightarrow>
             if by_ids
             then (if found \<noteq> []
                   then (case rec of
                           None \<Rightarrow> Inl AssertionError
                         | Some r \<Rightarrow>
                             Inr \<lparr>candidates = sort_candidates cfg (map snd found),
                                  recommendation = r\<rparr>)
                   else Inr \<lparr>candidates = [], recommendation = none\<rparr>)
             else (let terms = (case (search_artist, search_title) of
                                  (Some a, Some b) \<Rightarrow>
                                    if a \<noteq> [] \<and> b \<noteq> [] then (a, b)
                                    else (Item.artist item, Item.title item)
                                | _ \<Rightarrow> (Item.artist item, Item.title item))
                   in Inr (propose cfg
                             (map snd (add_track_candidates cfg e item
                                (item_candidates e item (fst terms) (snd terms)) found)))))"

section \<open>Inputs of the scenarios\<close>

text \<open>
  The configuration of the scenarios of the specification: strong threshold 0.04,
  medium threshold 0.25, gap threshold 0.4, no ceilings and equal weights.
\<close>

definition scenario_config :: config where
  "scenario_config =
     \<lparr>strong_rec_thresh = 0.04, medium_rec_thresh = 0.25, rec_gap_thresh = 0.4,
      max_rec = [], distance_weights = (\<lambda>_. 1),
      track_length_grace = 10, track_length_max = 30,
      required = [], ignored = [], preferred_media = [], preferred_countries = [],
      preferred_original_year = False, timid = False, extra_tags = []\<rparr>"

definition scenario_track :: TrackInfo where
  "scenario_track =
     \<lparr>TrackInfo.obj_id = 0, title = Some ''Title'', artist = Some ''Artist X'', track_id = None,
      index = Some 1, medium_index = Some 1, medium = Some 1, length' = None\<rparr>"

text \<open>A single-track candidate whose aggregate distance is \<open>x\<close>.\<close>

definition scenario_match :: "real \<Rightarrow> Match" where
  "scenario_match x = TrackMatch (Distance [(''track_title'', x)] []) scenario_track"

text \<open>
  Collaborators for the scenarios: strings are at distance 0 when equal and 1 otherwise,
  no plugin contributes, no source finds anything, and the solver pairs the first items
  with the first tracks in order.
\<close>

definition in_order_solver :: "real list list \<Rightarrow> error + int list" where
  "in_order_solver costs =
     (case costs of
        [] \<Rightarrow> Inl SolverError
      | row # _ \<Rightarrow>
          Inr (map int [0..<min (length costs) (length row)]
               @ replicate (length row - length costs) (- 1)))"

definition scenario_env :: env where
  "scenario_env =
     \<lparr>string_dist = (\<lambda>a b. if a = b then 0 else 1),
      priority_dist = (\<lambda>v options. 0),
      plugins_track_distance = (\<lambda>item track_info. empty_distance),
      plugins_album_distance = (\<lambda>items album_info mapping. empty_distance),
      lapjv = in_order_solver,
      album_for_mbid = (\<lambda>mbid. None),
      albums_for_id = (\<lambda>mbid. []),
      album_candidates = (\<lambda>items artist album va_likely extra_tags. []),
      tracks_for_id = (\<lambda>mbid. []),
      item_candidates = (\<lambda>item artist title. []),
      today_year = 2025,
      str_lower = ascii_lower\<rparr>"

text \<open>
  A local record of the album "Album" by the album artist "Artist X": its object
  identity and track number, its track artist and its MusicBrainz album id.
\<close>

definition scenario_item :: "nat \<Rightarrow> string \<Rightarrow> string \<Rightarrow> Item" where
  "scenario_item n track_artist albumid =
     \<lparr>Item.obj_id = n, title = ''Title'', artist = track_artist, album = ''Album'',
      albumartist = ''Artist X'', year = 2000, disctotal = 1, mb_albumid = albumid,
      label = '''', barcode = '''', catalognum = '''', country = '''', media = '''',
      albumdisambig = '''', track = int n, disc = 1, length' = 180, mb_trackid = '''',
      comp = False\<rparr>"

text \<open>A canonical release with the single track of the scenarios.\<close>

definition scenario_album :: "string option \<Rightarrow> AlbumInfo" where
  "scenario_album albumid =
     \<lparr>AlbumInfo.artist = Some ''Artist X'', album = Some ''Album'', album_id = albumid,
      va = False, tracks = [scenario_track], media = None, mediums = None, year = None,
      original_year = None, country = None, label = None, catalognum = None,
      albumdisambig = None\<rparr>"

text \<open>
  The canonical track number \<open>n\<close> of the release, and a canonical track without a
  number: its index is \<^verbatim>\<open>None\<close>.
\<close>

definition scenario_track_n :: "nat \<Rightarrow> TrackInfo" where
  "scenario_track_n n =
     scenario_track\<lparr>TrackInfo.obj_id := n, index := Some (int n), medium_index := Some (int n)\<rparr>"

definition unnumbered_track :: TrackInfo where
  "unnumbered_track =
     scenario_track\<lparr>TrackInfo.obj_id := 10, title := Some ''Other'', index := None,
       medium_index := None\<rparr>"

text \<open>
  A configuration with two ceilings, and a release-level Distance of score 0.03 with a
  missing track, whose only per-track Distance holds a track-index penalty.
\<close>

definition ceiling_config :: config where
  "ceiling_config =
     scenario_config\<lparr>max_rec := [(''missing_tracks'', Recommendation.medium), (''track_index'', low)]\<rparr>"

definition ceiling_distance :: Distance where
  "ceiling_distance =
     Distance [(''album'', 0), (''missing_tracks'', 0.06)]
       [(scenario_track, Distance [(''track_index'', 1)] [])]"

text \<open>
  Collaborators whose \<^verbatim>\<open>str.lower\<close> knows one cased character outside ASCII: a string
  holds the UTF-8 bytes of its text, and the Kelvin sign (U+212A, the bytes E2 84 AA) is
  lowered to the letter k, as Python does.
\<close>

fun kelvin_lower :: "string \<Rightarrow> string" where
  "kelvin_lower (c1 # c2 # c3 # cs) =
     (if c1 = CHR 0xE2 \<and> c2 = CHR 0x84 \<and> c3 = CHR 0xAA then CHR ''k'' # kelvin_lower cs
      else ascii_lower_char c1 # kelvin_lower (c2 # c3 # cs))"
| "kelvin_lower cs = map ascii_lower_char cs"

definition kelvin_env :: env where
  "kelvin_env = scenario_env\<lparr>str_lower := kelvin_lower\<rparr>"


text \<open>Ten local records with the album artist "Artist X" and ten different track artists.\<close>

definition scenario_ten_items :: "Item list" where
  "scenario_ten_items =
     [scenario_item 1 ''A'' '''', scenario_item 2 ''B'' '''', scenario_item 3 ''C'' '''',
      scenario_item 4 ''D'' '''', scenario_item 5 ''E'' '''', scenario_item 6 ''F'' '''',
      scenario_item 7 ''G'' '''', scenario_item 8 ''H'' '''', scenario_item 9 ''I'' '''',
      scenario_item 10 ''J'' '''']"

text \<open>Collaborators whose lookup knows the release "A1".\<close>

definition lookup_env :: env where
  "lookup_env =
     scenario_env\<lparr>album_for_mbid :=
       (\<lambda>mbid. if mbid = ''A1'' then Some (scenario_album (Some ''A1'')) else None)\<rparr>"

section \<open>Properties of the rounding of floats\<close>

text \<open>
  The rounding to the nearest double is monotone and leaves a double as it is; the
  doubles that the decimal literals of the scenarios denote are computed from it.
\<close>

lemma round_even_bounds: "\<lfloor>q\<rfloor> \<le> round_even q" "round_even q \<le> \<lfloor>q\<rfloor> + 1"
  by (simp_all add: round_even_def)

lemma round_even_int: "round_even (real_of_int n) = n"
  by (simp add: round_even_def)

lemma round_even_mono: "q \<le> q' \<Longrightarrow> round_even q \<le> round_even q'"
proof -
  assume le: "q \<le> q'"
  then have f: "\<lfloor>q\<rfloor> \<le> \<lfloor>q'\<rfloor>" by (rule floor_mono)
  show ?thesis
  proof (cases "\<lfloor>q\<rfloor> = \<lfloor>q'\<rfloor>")
    case True
    with le show ?thesis by (auto simp: round_even_def)
  next
    case False
    with f have "\<lfloor>q\<rfloor> + 1 \<le> \<lfloor>q'\<rfloor>" by simp
    with round_even_bounds(2) [of q] round_even_bounds(1) [of q'] show ?thesis by linarith
  qed
qed

lemma round_even_le: "q \<le> real_of_int n \<Longrightarrow> round_even q \<le> n"
  using round_even_mono [of q "real_of_int n"] by (simp add: round_even_int)

lemma round_even_ge: "real_of_int n \<le> q \<Longrightarrow> n \<le> round_even q"
  using round_even_mono [of "real_of_int n" q] by (simp add: round_even_int)

lemma ulp_pos: "0 < ulp x"
  by (simp add: ulp_def)

lemma binade_minus: "binade (- x) = binade x"
  by (simp add: binade_def)

lemma float_round_minus: "float_round (- x) = - float_round x"
  by (simp add: float_round_def ulp_def binade_minus sgn_minus)

lemma float_round_0: "float_round 0 = 0"
  by (simp add: float_round_def)

lemma float_round_nonneg: "0 \<le> x \<Longrightarrow> 0 \<le> float_round x"
proof -
  assume "0 \<le> x"
  then have "0 \<le> \<bar>x\<bar> / ulp x" using ulp_pos [of x] by simp
  then have "0 \<le> round_even (\<bar>x\<bar> / ulp x)" using round_even_ge [of 0] by simp
  with \<open>0 \<le> x\<close> ulp_pos [of x] show ?thesis
    by (simp add: float_round_def sgn_if)
qed

text \<open>x below the top of its binade; x at least the bottom when its binade is above the least one\<close>

lemma below_top: assumes "0 < x" shows "x < 2 powr real_of_int (binade x + 1)"
proof -
  have "log 2 x < real_of_int (\<lfloor>log 2 x\<rfloor> + 1)" by linarith
  also have "\<dots> \<le> real_of_int (binade x + 1)" using assms by (simp add: binade_def)
  finally have "log 2 x < real_of_int (binade x + 1)" .
  with assms show ?thesis by (simp add: less_powr_iff)
qed

lemma above_bottom: assumes "0 < x" "- 1022 < binade x" shows "2 powr real_of_int (binade x) \<le> x"
proof -
  from assms have "binade x = \<lfloor>log 2 x\<rfloor>" by (simp add: binade_def max_def split: if_splits)
  then have "real_of_int (binade x) \<le> log 2 x" by simp
  with assms(1) show ?thesis by (simp add: powr_le_iff)
qed

lemma binade_mono: "0 < x \<Longrightarrow> x \<le> y \<Longrightarrow> binade x \<le> binade y"
proof -
  assume "0 < x" "x \<le> y"
  then have a: "\<bar>x\<bar> = x" "\<bar>y\<bar> = y" by simp_all
  from \<open>0 < x\<close> \<open>x \<le> y\<close> have "log 2 x \<le> log 2 y" by simp
  then have "\<lfloor>log 2 x\<rfloor> \<le> \<lfloor>log 2 y\<rfloor>" by (rule floor_mono)
  then show ?thesis unfolding binade_def a by (rule max.mono) (rule order_refl)
qed

lemma two52: "(2::real) powr 52 = 4503599627370496" "(2::real) powr 53 = 9007199254740992"
  by (simp_all add: powr_numeral)

lemma ulp_scale_52: "2 powr 52 * ulp x = 2 powr real_of_int (binade x)"
proof -
  have "2 powr 52 * ulp x = 2 powr (52 + (real_of_int (binade x) - 52))"
    unfolding ulp_def by (simp only: powr_add of_int_diff of_int_numeral)
  moreover have "52 + (real_of_int (binade x) - 52) = real_of_int (binade x)" by simp
  ultimately show ?thesis by (simp only:)
qed

lemma ulp_scale_53: "2 powr 53 * ulp x = 2 powr real_of_int (binade x + 1)"
proof -
  have "2 powr 53 * ulp x = 2 powr (53 + (real_of_int (binade x) - 52))"
    unfolding ulp_def by (simp only: powr_add of_int_diff of_int_numeral)
  moreover have "53 + (real_of_int (binade x) - 52) = real_of_int (binade x + 1)" by simp
  ultimately show ?thesis by (simp only:)
qed

lemma float_round_le_top:
  assumes "0 < x" shows "float_round x \<le> 2 powr real_of_int (binade x + 1)"
proof -
  have "x / ulp x \<le> 2 powr 53"
  proof -
    have "x \<le> 2 powr real_of_int (binade x + 1)" using below_top [OF assms] by simp
    also have "\<dots> = 2 powr 53 * ulp x"
      by (simp only: ulp_scale_53)
    finally show ?thesis using ulp_pos [of x] by (simp add: pos_divide_le_eq)
  qed
  then have "x / ulp x \<le> real_of_int 9007199254740992" by (simp add: two52)
  then have "round_even (x / ulp x) \<le> 9007199254740992" by (rule round_even_le)
  then have "real_of_int (round_even (x / ulp x)) \<le> 2 powr 53" by (simp add: two52)
  then have "real_of_int (round_even (x / ulp x)) * ulp x \<le> 2 powr 53 * ulp x"
    using ulp_pos [of x] by simp
  also have "\<dots> = 2 powr real_of_int (binade x + 1)"
    by (simp only: ulp_scale_53)
  finally show ?thesis using assms by (simp add: float_round_def)
qed

lemma float_round_ge_bottom:
  assumes "0 < x" "- 1022 < binade x" shows "2 powr real_of_int (binade x) \<le> float_round x"
proof -
  have "2 powr 52 \<le> x / ulp x"
  proof -
    have "2 powr 52 * ulp x = 2 powr real_of_int (binade x)"
      by (simp only: ulp_scale_52)
    also have "\<dots> \<le> x" by (rule above_bottom [OF assms])
    finally show ?thesis using ulp_pos [of x] by (simp add: pos_le_divide_eq)
  qed
  then have "real_of_int 4503599627370496 \<le> x / ulp x" by (simp add: two52)
  then have "4503599627370496 \<le> round_even (x / ulp x)" by (rule round_even_ge)
  then have "2 powr 52 \<le> real_of_int (round_even (x / ulp x))" by (simp add: two52)
  then have "2 powr 52 * ulp x \<le> real_of_int (round_even (x / ulp x)) * ulp x"
    using ulp_pos [of x] by simp
  moreover have "2 powr 52 * ulp x = 2 powr real_of_int (binade x)"
    by (simp only: ulp_scale_52)
  ultimately show ?thesis using assms by (simp add: float_round_def)
qed

lemma float_round_mono_pos:
  assumes "0 < x" "x \<le> y" shows "float_round x \<le> float_round y"
proof (cases "binade x = binade y")
  case True
  then have u: "ulp x = ulp y" by (simp add: ulp_def)
  have "x / ulp y \<le> y / ulp y" using assms ulp_pos [of y] by (simp add: divide_right_mono)
  then have "round_even (x / ulp y) \<le> round_even (y / ulp y)" by (rule round_even_mono)
  then have "real_of_int (round_even (x / ulp y)) * ulp y \<le> real_of_int (round_even (y / ulp y)) * ulp y"
    using ulp_pos [of y] by simp
  with assms u show ?thesis by (simp add: float_round_def)
next
  case False
  with binade_mono [OF assms] have lt: "binade x + 1 \<le> binade y" by simp
  have y: "0 < y" using assms by simp
  have b: "- 1022 \<le> binade x" by (simp add: binade_def)
  have "float_round x \<le> 2 powr real_of_int (binade x + 1)"
    by (rule float_round_le_top [OF assms(1)])
  also have "\<dots> \<le> 2 powr real_of_int (binade y)" using lt by simp
  also have "\<dots> \<le> float_round y" using y lt b by (intro float_round_ge_bottom) simp_all
  finally show ?thesis .
qed

theorem float_round_mono: "x \<le> y \<Longrightarrow> float_round x \<le> float_round y"
proof -
  assume le: "x \<le> y"
  consider "0 < x" | "x \<le> 0" "0 \<le> y" | "y < 0" by linarith
  then show ?thesis
  proof cases
    case 1
    then show ?thesis using le by (rule float_round_mono_pos)
  next
    case 2
    from 2(1) have "0 \<le> float_round (- x)" by (intro float_round_nonneg) simp
    then have "float_round x \<le> 0" by (simp add: float_round_minus)
    with float_round_nonneg [OF 2(2)] show ?thesis by simp
  next
    case 3
    with le have "float_round (- y) \<le> float_round (- x)"
      by (intro float_round_mono_pos) simp_all
    then show ?thesis by (simp add: float_round_minus)
  qed
qed

lemma floor_log2: assumes "2 powr real_of_int e \<le> x" "x < 2 powr real_of_int (e + 1)"
  shows "\<lfloor>log 2 x\<rfloor> = e"
proof -
  have "0 < (2::real) powr real_of_int e" by simp
  with assms(1) have pos: "0 < x" by linarith
  from assms(1) pos have "real_of_int e \<le> log 2 x" by (simp add: powr_le_iff)
  moreover from assms(2) pos have "log 2 x < real_of_int (e + 1)" by (simp add: less_powr_iff)
  ultimately show ?thesis by linarith
qed

lemma binade_eq: assumes "- 1022 \<le> e" "2 powr real_of_int e \<le> \<bar>x\<bar>" "\<bar>x\<bar> < 2 powr real_of_int (e + 1)"
  shows "binade x = e"
  using floor_log2 [OF assms(2,3)] assms(1) by (simp add: binade_def)

lemma float_round_exact: "\<bar>x\<bar> / ulp x = real_of_int n \<Longrightarrow> float_round x = x"
proof -
  assume a: "\<bar>x\<bar> / ulp x = real_of_int n"
  then have "real_of_int (round_even (\<bar>x\<bar> / ulp x)) * ulp x = \<bar>x\<bar>"
    using ulp_pos [of x] by (simp add: round_even_int nonzero_divide_eq_eq)
  then show ?thesis by (simp add: float_round_def sgn_if)
qed

lemma powr_m1: "(2::real) powr real_of_int (- 1) = 1 / 2"
  by (simp add: powr_minus_divide)



lemma binade_quarter: "binade (1 / 4) = - 2"
  by (rule binade_eq) (simp_all add: powr_minus_divide)

lemma float_round_quarter: "float_round (1 / 4) = 1 / 4"
proof (rule float_round_exact [where n = 4503599627370496])
  have u: "ulp (1 / 4) = 1 / 18014398509481984"
    by (simp add: ulp_def binade_quarter powr_minus_divide powr_numeral)
  show "\<bar>1 / 4\<bar> / ulp (1 / 4) = real_of_int 4503599627370496"
    unfolding u by simp
qed


















lemma float_sub_mono_right: "b \<le> a \<Longrightarrow> float_sub s a \<le> float_sub s b"
  unfolding float_sub_def by (rule float_round_mono) simp

lemma float_sub_mono_left: "a \<le> b \<Longrightarrow> float_sub a s \<le> float_sub b s"
  unfolding float_sub_def by (rule float_round_mono) simp

section \<open>Properties of the recommendation classifier\<close>

lemma rec_value_rec_min: "rec_value (rec_min a b) = min (rec_value a) (rec_value b)"
  by (simp add: rec_min_def)

lemma rec_value_inj: "rec_value a = rec_value b \<Longrightarrow> a = b"
  by (cases a; cases b) simp_all

text \<open>The loop over the keys computes a minimum, so the order of the keys is irrelevant.\<close>

lemma apply_max_rec_value:
  "rec_value (apply_max_rec mr ks r) =
     Min (insert (rec_value r) (rec_value ` set (List.map_filter (map_of mr) ks)))"
proof (induction ks arbitrary: r)
  case Nil
  show ?case by simp
next
  case (Cons k ks)
  show ?case
  proof (cases "map_of mr k")
    case None
    then show ?thesis using Cons.IH [of r] by simp
  next
    case (Some c)
    have "Min (insert (min (rec_value r) (rec_value c)) S) =
          Min (insert (rec_value r) (insert (rec_value c) S))"
      if "finite S" for S
      using that by (cases "S = {}") (simp_all add: min.assoc)
    then show ?thesis using Some Cons.IH [of "rec_min r c"]
      by (simp add: rec_value_rec_min)
  qed
qed

lemma set_map_filter:
  "set (List.map_filter f ks) = {c. \<exists>k \<in> set ks. f k = Some c}"
  by (induction ks) (auto split: option.splits)

lemma apply_max_rec_set_cong:
  assumes "set ks = set ks'"
  shows "apply_max_rec mr ks r = apply_max_rec mr ks' r"
  by (rule rec_value_inj) (simp add: apply_max_rec_value set_map_filter assms)

lemma apply_max_rec_mono:
  "rec_value r \<le> rec_value r' \<Longrightarrow>
   rec_value (apply_max_rec mr ks r) \<le> rec_value (apply_max_rec mr ks r')"
  by (induction ks arbitrary: r r') (auto simp: rec_value_rec_min split: option.splits)



lemma match_score_scenario: "match_score scenario_config (scenario_match x) = x"
  by (simp add: match_score_def scenario_match_def scenario_config_def score_def
      max_distance_def raw_distance_def)

lemma ceilings_scenario: "ceilings scenario_config m = []"
  by (simp add: ceilings_def scenario_config_def List.map_filter_def)

lemma scenario_thresholds:
  "strong_rec_thresh scenario_config = 0.04"
  "medium_rec_thresh scenario_config = 0.25"
  "rec_gap_thresh scenario_config = 0.4"
  by (simp_all add: scenario_config_def)






lemma threshold_rec_cons:
  "threshold_rec cfg (m # rest) =
     (if match_score cfg m < strong_rec_thresh cfg then Some strong
      else if match_score cfg m \<le> medium_rec_thresh cfg then Some Recommendation.medium
      else case rest of
             [] \<Rightarrow> Some low
           | m2 # rest' \<Rightarrow>
               if rec_gap_thresh cfg \<le> float_sub (match_score cfg m2) (match_score cfg m)
               then Some low else None)"
  by (cases rest) (simp_all add: threshold_rec_def Let_def)



text \<open>
  The claim as it was stated, refuted: here the best score is strictly below the strong
  threshold and the recommendation is \<open>low\<close>, because the best candidate carries a
  track-index penalty whose configured ceiling is \<open>low\<close>.
\<close>

theorem recommendation_threshold_counterexample:
  "match_score ceiling_config (AlbumMatch ceiling_distance (scenario_album None) [] [] [])
     < strong_rec_thresh ceiling_config
   \<and> recommendation' ceiling_config [AlbumMatch ceiling_distance (scenario_album None) [] [] []] = low"
  by (simp add: recommendation'_def threshold_rec_def downgrade_def match_score_def
      ceiling_config_def scenario_config_def ceiling_distance_def score_def max_distance_def
      raw_distance_def keys_def rec_min_def)

lemma rec_value_eq_iff: "rec_value a = rec_value b \<longleftrightarrow> a = b"
  using rec_value_inj by auto

lemma set_collected_keys:
  "set (collected_keys m) =
     (case m of
        AlbumMatch d _ _ _ _ \<Rightarrow> set (keys d) \<union> (\<Union>(t, td) \<in> set (track_dists d). set (keys td))
      | TrackMatch d _ \<Rightarrow> set (keys d))"
  by (cases m) auto

lemma threshold_rec_scores:
  assumes "map (match_score cfg) rest' = map (match_score cfg) rest"
  shows "threshold_rec cfg (m # rest') = threshold_rec cfg (m # rest)"
proof (cases rest)
  case Nil
  with assms show ?thesis by simp
next
  case (Cons a as)
  with assms obtain b bs where "rest' = b # bs" "match_score cfg b = match_score cfg a"
    by (cases rest') auto
  with Cons show ?thesis by (simp add: threshold_rec_cons)
qed

lemma ceiling_config_fields:
  "strong_rec_thresh ceiling_config = 0.04" "medium_rec_thresh ceiling_config = 0.25"
  "rec_gap_thresh ceiling_config = 0.4" "distance_weights ceiling_config = (\<lambda>_. 1)"
  "max_rec ceiling_config = [(''missing_tracks'', Recommendation.medium), (''track_index'', low)]"
  by (simp_all add: ceiling_config_def scenario_config_def)

lemma ceiling_distance_score: "score (\<lambda>_. 1) ceiling_distance = 0.03"
  by (simp add: ceiling_distance_def score_def max_distance_def raw_distance_def)

text \<open>
  Claim C2. When the threshold rules produce a recommendation \<open>r\<close> (they do not return
  \<open>none\<close> at once), the result is the minimum of \<open>r\<close> and the ceilings configured for
  the collected keys; the collected keys are the keys of the best candidate's Distance
  and, for an AlbumMatch only, the keys of its per-track Distances; and the candidates
  after the best one matter through their scores only, never through their keys. The
  function returns the recommendation alone, so the list is as it was.
\<close>

theorem downgrade_pass:
  "threshold_rec cfg (m # rest) = Some r \<longrightarrow>
     rec_value (recommendation' cfg (m # rest)) = Min (set (map rec_value (r # ceilings cfg m)))
     \<and> set (ceilings cfg m) = {c. \<exists>k \<in> set (collected_keys m). map_of (max_rec cfg) k = Some c}
     \<and> set (collected_keys m) =
         (case m of
            AlbumMatch d _ _ _ _ \<Rightarrow> set (keys d) \<union> (\<Union>(t, td) \<in> set (track_dists d). set (keys td))
          | TrackMatch d _ \<Rightarrow> set (keys d))
     \<and> (\<forall>rest'. map (match_score cfg) rest' = map (match_score cfg) rest \<longrightarrow>
           recommendation' cfg (m # rest') = recommendation' cfg (m # rest))"
proof (intro impI conjI allI)
  assume t: "threshold_rec cfg (m # rest) = Some r"
  then show "rec_value (recommendation' cfg (m # rest)) = Min (set (map rec_value (r # ceilings cfg m)))"
    by (simp add: recommendation'_def downgrade_def ceilings_def apply_max_rec_value)
  show "set (ceilings cfg m) = {c. \<exists>k \<in> set (collected_keys m). map_of (max_rec cfg) k = Some c}"
    by (simp add: ceilings_def set_map_filter)
  show "set (collected_keys m) =
         (case m of
            AlbumMatch d _ _ _ _ \<Rightarrow> set (keys d) \<union> (\<Union>(t, td) \<in> set (track_dists d). set (keys td))
          | TrackMatch d _ \<Rightarrow> set (keys d))"
    by (rule set_collected_keys)
  fix rest'
  assume "map (match_score cfg) rest' = map (match_score cfg) rest"
  then have "threshold_rec cfg (m # rest') = threshold_rec cfg (m # rest)"
    by (rule threshold_rec_scores)
  then show "recommendation' cfg (m # rest') = recommendation' cfg (m # rest)"
    by (simp add: recommendation'_def split: option.splits)
qed

theorem downgrade_pass_witness:
  "recommendation' ceiling_config [AlbumMatch ceiling_distance (scenario_album None) [] [] []] = low
   \<and> recommendation' ceiling_config [TrackMatch ceiling_distance scenario_track]
       = Recommendation.medium
   \<and> recommendation' ceiling_config
        [TrackMatch ceiling_distance scenario_track,
         AlbumMatch ceiling_distance (scenario_album None) [] [] []]
       = recommendation' ceiling_config
        [TrackMatch ceiling_distance scenario_track, TrackMatch ceiling_distance scenario_track]"
proof -
  let ?a = "AlbumMatch ceiling_distance (scenario_album None) [] [] []"
  let ?t = "TrackMatch ceiling_distance scenario_track"
  have s: "match_score ceiling_config ?a = 0.03" "match_score ceiling_config ?t = 0.03"
    by (simp_all add: match_score_def ceiling_config_fields ceiling_distance_score)
  have t: "threshold_rec ceiling_config [?a] = Some strong"
    "threshold_rec ceiling_config [?t] = Some strong"
    "threshold_rec ceiling_config [?t, ?t] = Some strong"
    by (simp_all add: threshold_rec_def s ceiling_config_fields)
  have c: "ceilings ceiling_config ?a = [Recommendation.medium, low]"
    "ceilings ceiling_config ?t = [Recommendation.medium]"
    by (simp_all add: ceilings_def ceiling_config_fields ceiling_distance_def keys_def)
  have 1: "recommendation' ceiling_config [?a] = low"
    using downgrade_pass [of ceiling_config ?a "[]" strong] t c
    by (simp add: rec_value_eq_iff [of _ low, symmetric])
  have 2: "recommendation' ceiling_config [?t] = Recommendation.medium"
    using downgrade_pass [of ceiling_config ?t "[]" strong] t c
    by (simp add: rec_value_eq_iff [of _ Recommendation.medium, symmetric])
  have 3: "recommendation' ceiling_config [?t, ?a] = recommendation' ceiling_config [?t, ?t]"
  proof -
    have "map (match_score ceiling_config) [?a] = map (match_score ceiling_config) [?t]"
      by (simp add: s)
    with downgrade_pass [of ceiling_config ?t "[?t]" strong, THEN mp, OF t(3),
        THEN conjunct2, THEN conjunct2, THEN conjunct2, THEN spec, of "[?a]"]
    show ?thesis by (rule mp)
  qed
  from 1 2 3 show ?thesis by blast
qed

lemma threshold_rec_mono:
  assumes "match_score cfg mB < match_score cfg mA"
    and "threshold_rec cfg (mA # rest) = Some rA"
  shows "\<exists>rB. threshold_rec cfg (mB # rest) = Some rB \<and> rec_value rA \<le> rec_value rB"
proof (cases rest)
  case Nil
  with assms show ?thesis by (auto simp: threshold_rec_cons split: if_splits)
next
  case (Cons m2 rest')
  have "float_sub (match_score cfg m2) (match_score cfg mA)
          \<le> float_sub (match_score cfg m2) (match_score cfg mB)"
    using assms(1) by (intro float_sub_mono_right) simp
  with assms Cons show ?thesis by (auto simp: threshold_rec_cons split: if_splits)
qed

lemma collected_keys_scenario: "collected_keys (scenario_match x) = [''track_title'']"
  by (simp add: scenario_match_def keys_def)

text \<open>
  Claim C8. Monotonicity in the best score: when the best candidate \<open>mB\<close> of one list
  has a strictly smaller score than the best candidate \<open>mA\<close> of another, with the same
  collected keys, the same remaining candidates and the same configuration, the
  recommendation for the list of \<open>mB\<close> is not lower than that for the list of
  \<open>mA\<close>.
\<close>

theorem recommendation_monotonic:
  "match_score cfg mB < match_score cfg mA \<and> set (collected_keys mB) = set (collected_keys mA) \<longrightarrow>
     rec_value (recommendation' cfg (mA # rest)) \<le> rec_value (recommendation' cfg (mB # rest))"
proof (intro impI)
  assume h: "match_score cfg mB < match_score cfg mA \<and> set (collected_keys mB) = set (collected_keys mA)"
  show "rec_value (recommendation' cfg (mA # rest)) \<le> rec_value (recommendation' cfg (mB # rest))"
  proof (cases "threshold_rec cfg (mA # rest)")
    case None
    then show ?thesis by (simp add: recommendation'_def)
  next
    case (Some rA)
    with h obtain rB where rB: "threshold_rec cfg (mB # rest) = Some rB" "rec_value rA \<le> rec_value rB"
      using threshold_rec_mono by blast
    have "apply_max_rec (max_rec cfg) (collected_keys mB) rB = apply_max_rec (max_rec cfg) (collected_keys mA) rB"
      using h by (intro apply_max_rec_set_cong) simp
    with Some rB show ?thesis
      by (simp add: recommendation'_def downgrade_def apply_max_rec_mono)
  qed
qed

theorem recommendation_monotonic_witness:
  "rec_value (recommendation' scenario_config [scenario_match 0.05, scenario_match 0.90])
     \<le> rec_value (recommendation' scenario_config [scenario_match 0.03, scenario_match 0.90])
   \<and> rec_value (recommendation' scenario_config [scenario_match 0.50, scenario_match 0.90])
     \<le> rec_value (recommendation' scenario_config [scenario_match 0.30, scenario_match 0.90])"
  using
    recommendation_monotonic [of scenario_config "scenario_match 0.03" "scenario_match 0.05" "[scenario_match 0.90]"]
    recommendation_monotonic [of scenario_config "scenario_match 0.30" "scenario_match 0.50" "[scenario_match 0.90]"]
  by (simp add: match_score_scenario collected_keys_scenario)

section \<open>Properties of the track distance\<close>

lemma contributions_empty: "contributions key empty_distance = []"
  by (simp add: contributions_def empty_distance_def)

lemma contributions_add:
  "contributions key (add d k v) = contributions key d @ (if k = key then [max 0 (min 1 v)] else [])"
  by (simp add: contributions_def add_def)

lemma contributions_add_expr:
  "contributions key (add_expr d k b) = contributions key d @ (if k = key then [if b then 1 else 0] else [])"
  by (simp add: add_expr_def contributions_add)

lemma contributions_add_ratio:
  "k \<noteq> key \<Longrightarrow> contributions key (add_ratio d k x y) = contributions key d"
  by (simp add: add_ratio_def contributions_add)

lemma contributions_add_string:
  "contributions key (add_string e d k s1 s2) =
     contributions key d @ (if k = key then [max 0 (min 1 (string_dist e s1 s2))] else [])"
  by (simp add: add_string_def contributions_add)

lemma contributions_update:
  "contributions key (update d other) = contributions key d @ contributions key other"
  by (simp add: contributions_def update_def)

lemma keys_contributions: "key \<in> set (keys d) \<longleftrightarrow> contributions key d \<noteq> []"
  by (force simp: keys_def contributions_def filter_empty_conv)

lemmas contributions_simps =
  contributions_empty contributions_add_expr contributions_add_ratio contributions_add_string
  contributions_update

lemma scenario_plugins:
  "plugins_track_distance scenario_env item track_info = empty_distance"
  by (simp add: scenario_env_def)

lemma lower_examples:
  "str_lower scenario_env ''VA'' = ''va''"
  "str_lower scenario_env ''Various Artists'' = ''various artists''"
  "str_lower scenario_env ''Artist Y'' = ''artist y''"
  by (simp_all add: scenario_env_def ascii_lower_def ascii_lower_char_def)

lemma kelvin_example:
  "str_lower kelvin_env (''UN'' @ [CHR 0xE2, CHR 0x84, CHR 0xAA] @ ''NOWN'') = ''unknown''"
  by (simp add: kelvin_env_def ascii_lower_char_def)

lemma kelvin_plugins:
  "plugins_track_distance kelvin_env item track_info = empty_distance"
  by (simp add: kelvin_env_def scenario_env_def)

text \<open>
  Claim C7. In \<^verbatim>\<open>track_distance\<close> the artist dissimilarity is contributed if and only if
  \<open>incl_artist\<close> is requested, the canonical artist is known and not empty, and the
  local artist, lower-cased by \<^verbatim>\<open>str.lower\<close>, is none of the sentinels \<open>""\<close>, \<open>"various artists"\<close>,
  \<open>"various"\<close>, \<open>"va"\<close>, \<open>"unknown"\<close>. Otherwise the function itself contributes
  nothing under \<open>track_artist\<close>: the only contributions under that key are those of
  the plugin hook, so the key is absent unless a plugin brings it.
\<close>

theorem track_artist_factor:
  "contributions ''track_artist'' (track_distance cfg e item track_info incl_artist) =
     (if incl_artist \<and> truthy_str (TrackInfo.artist track_info)
         \<and> str_lower e (Item.artist item) \<notin> set VA_ARTISTS
      then [max 0 (min 1 (string_dist e (Some (Item.artist item)) (TrackInfo.artist track_info)))]
      else [])
     @ contributions ''track_artist'' (plugins_track_distance e item track_info)
   \<and> (''track_artist'' \<in> set (keys (track_distance cfg e item track_info incl_artist)) \<longleftrightarrow>
        (incl_artist \<and> truthy_str (TrackInfo.artist track_info)
           \<and> str_lower e (Item.artist item) \<notin> set VA_ARTISTS)
        \<or> ''track_artist'' \<in> set (keys (plugins_track_distance e item track_info)))
   \<and> set VA_ARTISTS = {'''', ''various artists'', ''various'', ''va'', ''unknown''}"
proof -
  have c: "contributions ''track_artist'' (track_distance cfg e item track_info incl_artist) =
     (if incl_artist \<and> truthy_str (TrackInfo.artist track_info)
         \<and> str_lower e (Item.artist item) \<notin> set VA_ARTISTS
      then [max 0 (min 1 (string_dist e (Some (Item.artist item)) (TrackInfo.artist track_info)))]
      else [])
     @ contributions ''track_artist'' (plugins_track_distance e item track_info)"
    by (simp add: track_distance_def Let_def contributions_simps split: option.splits)
  have v: "set VA_ARTISTS = {'''', ''various artists'', ''various'', ''va'', ''unknown''}"
    by (simp add: VA_ARTISTS_def)
  have k: "''track_artist'' \<in> set (keys (track_distance cfg e item track_info incl_artist)) \<longleftrightarrow>
        (incl_artist \<and> truthy_str (TrackInfo.artist track_info)
           \<and> str_lower e (Item.artist item) \<notin> set VA_ARTISTS)
        \<or> ''track_artist'' \<in> set (keys (plugins_track_distance e item track_info))"
    unfolding keys_contributions c by auto
  from c k v show ?thesis by blast
qed

theorem track_artist_factor_witness:
  "contributions ''track_artist''
     (track_distance scenario_config scenario_env (scenario_item 1 ''Artist Y'' '''') scenario_track True) = [1]
   \<and> ''track_artist'' \<in> set (keys
     (track_distance scenario_config scenario_env (scenario_item 1 ''Artist Y'' '''') scenario_track True))
   \<and> contributions ''track_artist''
     (track_distance scenario_config scenario_env (scenario_item 1 ''Artist Y'' '''') scenario_track False) = []
   \<and> contributions ''track_artist''
     (track_distance scenario_config scenario_env (scenario_item 1 ''Various Artists'' '''') scenario_track True) = []
   \<and> ''track_artist'' \<notin> set (keys
     (track_distance scenario_config scenario_env (scenario_item 1 ''VA'' '''') scenario_track True))
   \<and> contributions ''track_artist''
     (track_distance scenario_config scenario_env (scenario_item 1 ''Artist Y'' '''')
        (scenario_track\<lparr>TrackInfo.artist := None\<rparr>) True) = []
   \<and> contributions ''track_artist''
     (track_distance scenario_config kelvin_env
        (scenario_item 1 (''UN'' @ [CHR 0xE2, CHR 0x84, CHR 0xAA] @ ''NOWN'') '''') scenario_track True) = []"
proof -
  note ev = scenario_plugins contributions_empty keys_contributions lower_examples VA_ARTISTS_def
    truthy_str_def scenario_item_def scenario_track_def
  have sd: "string_dist scenario_env (Some ''Artist Y'') (Some ''Artist X'') = 1"
    by (simp add: scenario_env_def)
  have a: "Item.artist (scenario_item n a i) = a" for n a i
    by (simp add: scenario_item_def)
  have k: "contributions ''track_artist''
     (track_distance scenario_config kelvin_env
        (scenario_item 1 (''UN'' @ [CHR 0xE2, CHR 0x84, CHR 0xAA] @ ''NOWN'') '''') scenario_track True) = []"
    using track_artist_factor [of scenario_config kelvin_env
        "scenario_item 1 (''UN'' @ [CHR 0xE2, CHR 0x84, CHR 0xAA] @ ''NOWN'') ''''" scenario_track True]
    by (simp only: a kelvin_example kelvin_plugins contributions_empty) (simp add: VA_ARTISTS_def)
  show ?thesis
    using k
      track_artist_factor [of scenario_config scenario_env "scenario_item 1 ''Artist Y'' ''''" scenario_track True]
      track_artist_factor [of scenario_config scenario_env "scenario_item 1 ''Artist Y'' ''''" scenario_track False]
      track_artist_factor [of scenario_config scenario_env "scenario_item 1 ''Various Artists'' ''''" scenario_track True]
      track_artist_factor [of scenario_config scenario_env "scenario_item 1 ''VA'' ''''" scenario_track True]
      track_artist_factor [of scenario_config scenario_env "scenario_item 1 ''Artist Y'' ''''" "scenario_track\<lparr>TrackInfo.artist := None\<rparr>" True]
    by (simp add: ev sd)
qed

text \<open>
  Claim C10. In \<^verbatim>\<open>track_distance\<close> the track-index penalty is contributed exactly when
  the canonical index and the local track number are both truthy, and the medium
  penalty exactly when the canonical medium and the local disc number are both truthy
  (truthy: present and not 0). With a value 0 the penalty is skipped, with no
  contribution and no key of the function's own; and a canonical index or medium of 0
  gives the same Distance as an unknown one, as long as the plugin hook does not tell
  them apart.
\<close>

theorem track_index_medium_truthiness:
  "contributions ''track_index'' (track_distance cfg e item track_info incl_artist) =
     (if truthy_num (index track_info) \<and> track item \<noteq> 0
      then [if track_index_changed item track_info then 1 else 0] else [])
     @ contributions ''track_index'' (plugins_track_distance e item track_info)
   \<and> contributions ''medium'' (track_distance cfg e item track_info incl_artist) =
     (if truthy_num (medium track_info) \<and> disc item \<noteq> 0
      then [if Some (disc item) \<noteq> medium track_info then 1 else 0] else [])
     @ contributions ''medium'' (plugins_track_distance e item track_info)
   \<and> (truthy_num (index track_info) \<longleftrightarrow> index track_info \<noteq> None \<and> index track_info \<noteq> Some 0)
   \<and> (truthy_num (medium track_info) \<longleftrightarrow> medium track_info \<noteq> None \<and> medium track_info \<noteq> Some 0)
   \<and> (plugins_track_distance e item (track_info\<lparr>index := Some 0\<rparr>)
          = plugins_track_distance e item (track_info\<lparr>index := None\<rparr>) \<longrightarrow>
        track_distance cfg e item (track_info\<lparr>index := Some 0\<rparr>) incl_artist
          = track_distance cfg e item (track_info\<lparr>index := None\<rparr>) incl_artist)
   \<and> (plugins_track_distance e item (track_info\<lparr>medium := Some 0\<rparr>)
          = plugins_track_distance e item (track_info\<lparr>medium := None\<rparr>) \<longrightarrow>
        track_distance cfg e item (track_info\<lparr>medium := Some 0\<rparr>) incl_artist
          = track_distance cfg e item (track_info\<lparr>medium := None\<rparr>) incl_artist)"
proof (intro conjI impI)
  show "contributions ''track_index'' (track_distance cfg e item track_info incl_artist) =
     (if truthy_num (index track_info) \<and> track item \<noteq> 0
      then [if track_index_changed item track_info then 1 else 0] else [])
     @ contributions ''track_index'' (plugins_track_distance e item track_info)"
    by (simp add: track_distance_def Let_def contributions_simps split: option.splits)
  show "contributions ''medium'' (track_distance cfg e item track_info incl_artist) =
     (if truthy_num (medium track_info) \<and> disc item \<noteq> 0
      then [if Some (disc item) \<noteq> medium track_info then 1 else 0] else [])
     @ contributions ''medium'' (plugins_track_distance e item track_info)"
    by (simp add: track_distance_def Let_def contributions_simps split: option.splits)
  show "truthy_num (index track_info) \<longleftrightarrow> index track_info \<noteq> None \<and> index track_info \<noteq> Some 0"
    by (simp add: truthy_num_def split: option.splits)
  show "truthy_num (medium track_info) \<longleftrightarrow> medium track_info \<noteq> None \<and> medium track_info \<noteq> Some 0"
    by (simp add: truthy_num_def split: option.splits)
next
  assume "plugins_track_distance e item (track_info\<lparr>index := Some 0\<rparr>)
          = plugins_track_distance e item (track_info\<lparr>index := None\<rparr>)"
  then show "track_distance cfg e item (track_info\<lparr>index := Some 0\<rparr>) incl_artist
          = track_distance cfg e item (track_info\<lparr>index := None\<rparr>) incl_artist"
    by (simp add: track_distance_def Let_def truthy_num_def)
next
  assume "plugins_track_distance e item (track_info\<lparr>medium := Some 0\<rparr>)
          = plugins_track_distance e item (track_info\<lparr>medium := None\<rparr>)"
  then show "track_distance cfg e item (track_info\<lparr>medium := Some 0\<rparr>) incl_artist
          = track_distance cfg e item (track_info\<lparr>medium := None\<rparr>) incl_artist"
    by (simp add: track_distance_def Let_def truthy_num_def track_index_changed_def)
qed

theorem track_index_medium_truthiness_witness:
  "contributions ''track_index''
     (track_distance scenario_config scenario_env (scenario_item 2 ''Artist X'' '''') scenario_track False) = [1]
   \<and> contributions ''track_index''
     (track_distance scenario_config scenario_env (scenario_item 0 ''Artist X'' '''') scenario_track False) = []
   \<and> contributions ''track_index''
     (track_distance scenario_config scenario_env (scenario_item 2 ''Artist X'' '''')
        (scenario_track\<lparr>index := Some 0\<rparr>) False) = []
   \<and> contributions ''medium''
     (track_distance scenario_config scenario_env (scenario_item 2 ''Artist X'' '''') scenario_track False) = [0]
   \<and> contributions ''medium''
     (track_distance scenario_config scenario_env (scenario_item 2 ''Artist X'' '''')
        (scenario_track\<lparr>medium := Some 0\<rparr>) False) = []
   \<and> track_distance scenario_config scenario_env (scenario_item 2 ''Artist X'' '''')
        (scenario_track\<lparr>index := Some 0\<rparr>) False
      = track_distance scenario_config scenario_env (scenario_item 2 ''Artist X'' '''')
        (scenario_track\<lparr>index := None\<rparr>) False
   \<and> track_distance scenario_config scenario_env (scenario_item 2 ''Artist X'' '''')
        (scenario_track\<lparr>medium := Some 0\<rparr>) False
      = track_distance scenario_config scenario_env (scenario_item 2 ''Artist X'' '''')
        (scenario_track\<lparr>medium := None\<rparr>) False"
proof -
  note ev = scenario_plugins contributions_empty truthy_num_def track_index_changed_def
    scenario_item_def scenario_track_def
  show ?thesis
    using
      track_index_medium_truthiness [of scenario_config scenario_env "scenario_item 2 ''Artist X'' ''''" scenario_track False]
      track_index_medium_truthiness [of scenario_config scenario_env "scenario_item 0 ''Artist X'' ''''" scenario_track False]
      track_index_medium_truthiness [of scenario_config scenario_env "scenario_item 2 ''Artist X'' ''''" "scenario_track\<lparr>index := Some 0\<rparr>" False]
      track_index_medium_truthiness [of scenario_config scenario_env "scenario_item 2 ''Artist X'' ''''" "scenario_track\<lparr>medium := Some 0\<rparr>" False]
    by (simp add: ev)
qed

section \<open>Properties of the track assignment\<close>

lemma dict_set_keys: "fst ` set (dict_set m k v) = insert k (fst ` set m)"
  by (induction m k v rule: dict_set.induct) auto

lemma dict_set_distinct: "distinct (map fst m) \<Longrightarrow> distinct (map fst (dict_set m k v))"
  by (induction m k v rule: dict_set.induct) (auto simp: dict_set_keys)

lemma dict_set_values: "snd ` set (dict_set m k v) \<subseteq> insert v (snd ` set m)"
  by (induction m k v rule: dict_set.induct) auto

lemma py_index_in_set: "py_index xs i = Inr x \<Longrightarrow> x \<in> set xs"
  by (auto simp: py_index_def Let_def split: if_splits)


lemma build_mapping_props:
  "build_mapping items zs acc = Inr m \<Longrightarrow>
     fst ` set m \<subseteq> set items \<union> fst ` set acc
     \<and> snd ` set m \<subseteq> snd ` set zs \<union> snd ` set acc
     \<and> (distinct (map fst acc) \<longrightarrow> distinct (map fst m))"
proof (induction items zs acc rule: build_mapping.induct)
  case (1 items mapping)
  then show ?case by simp
next
  case (2 items iidx t rest mapping)
  show ?case
  proof (cases "iidx = - 1")
    case True
    with 2 show ?thesis by auto
  next
    case False
    with "2.prems" obtain item where i: "py_index items iidx = Inr item"
      and b: "build_mapping items rest (dict_set mapping item t) = Inr m"
      by (auto split: sum.splits)
    have in_items: "item \<in> set items" using i by (rule py_index_in_set)
    note ih = "2.IH"(1) [OF False i b]
    have k: "fst ` set m \<subseteq> set items \<union> fst ` set mapping"
    proof -
      from ih have "fst ` set m \<subseteq> set items \<union> fst ` set (dict_set mapping item t)"
        by (rule conjunct1)
      then show ?thesis using in_items unfolding dict_set_keys by blast
    qed
    have v: "snd ` set m \<subseteq> snd ` set ((iidx, t) # rest) \<union> snd ` set mapping"
    proof -
      have "snd ` set ((iidx, t) # rest) = insert t (snd ` set rest)" by simp
      moreover from ih have "snd ` set m \<subseteq> snd ` set rest \<union> snd ` set (dict_set mapping item t)"
        by (rule conjunct2 [THEN conjunct1])
      ultimately show ?thesis using dict_set_values [of mapping item t] by blast
    qed
    have d: "distinct (map fst mapping) \<longrightarrow> distinct (map fst m)"
    proof
      assume "distinct (map fst mapping)"
      then have "distinct (map fst (dict_set mapping item t))" by (rule dict_set_distinct)
      with ih show "distinct (map fst m)" by (simp only:)
    qed
    from k v d show ?thesis by (intro conjI)
  qed
qed








lemma build_mapping_one_item:
  "build_mapping [item] zs acc = Inr m \<Longrightarrow> fst ` set acc \<subseteq> {item} \<Longrightarrow> fst ` set m \<subseteq> {item}"
proof -
  assume b: "build_mapping [item] zs acc = Inr m" and a: "fst ` set acc \<subseteq> {item}"
  from build_mapping_props [OF b] have "fst ` set m \<subseteq> set [item] \<union> fst ` set acc"
    by (rule conjunct1)
  then have "fst ` set m \<subseteq> insert item (fst ` set acc)" by simp
  also have "\<dots> \<subseteq> {item}" using a by blast
  finally show ?thesis .
qed

text \<open>
  With one local item at most one canonical track is paired, so of three tracks two are
  left over; when the keys of every two of them cannot be compared, the sort of the
  extra tracks raises, whatever the solver answers.
\<close>

lemma assign_items_raises:
  assumes d: "distinct [ta, tb, tc]"
    and ab: "tuple_lt (track_key ta) (track_key tb) = Inl TypeError"
    and ac: "tuple_lt (track_key ta) (track_key tc) = Inl TypeError"
    and bc: "tuple_lt (track_key tb) (track_key tc) = Inl TypeError"
  shows "\<exists>err. assign_items cfg e [item] [ta, tb, tc] = Inl err"
proof -
  let ?costs = "map (\<lambda>i. map (\<lambda>t. score (distance_weights cfg) (track_distance cfg e i t False)) [ta, tb, tc]) [item]"
  show ?thesis
  proof (cases "lapjv e ?costs")
    case (Inl err)
    then show ?thesis by (simp add: assign_items_def)
  next
    case idxs: (Inr idxs)
    show ?thesis
    proof (cases "build_mapping [item] (zip idxs [ta, tb, tc]) []")
      case (Inl err)
      with idxs show ?thesis by (simp add: assign_items_def)
    next
      case m: (Inr m)
      from build_mapping_props [OF m] have dm: "distinct (map fst m)" by simp
      from build_mapping_one_item [OF m] have "fst ` set m \<subseteq> {item}" by simp
      then have sub: "set (map fst m) \<subseteq> {item}" by simp
      have lm: "length m \<le> 1"
      proof (cases m)
        case Nil
        then show ?thesis by simp
      next
        case p: (Cons p ps)
        show ?thesis
        proof (cases ps)
          case Nil
          with p show ?thesis by simp
        next
          case (Cons q qs)
          with p sub have "fst p = item" "fst q = item" by auto
          with p Cons dm show ?thesis by simp
        qed
      qed
      let ?rest = "filter (\<lambda>t. t \<notin> set (map snd m)) (remdups [ta, tb, tc])"
      have two: "(ta \<in> set ?rest \<and> tb \<in> set ?rest) \<or> (ta \<in> set ?rest \<and> tc \<in> set ?rest)
          \<or> (tb \<in> set ?rest \<and> tc \<in> set ?rest)"
      proof (cases m)
        case Nil
        then show ?thesis by simp
      next
        case (Cons p ps)
        with lm have "m = [p]" by simp
        with d show ?thesis by auto
      qed
      have "\<exists>a \<in> set ?rest. \<exists>b \<in> set ?rest. tuple_lt (track_key a) (track_key b) = Inl TypeError"
        using two ab ac bc by blast
      then have "sort_tracks ?rest = Inl TypeError"
        unfolding sort_tracks_def by (simp only: if_True)
      with idxs m show ?thesis by (simp add: assign_items_def Let_def)
    qed
  qed
qed


lemma scenario_lapjv: "lapjv scenario_env = in_order_solver"
  by (simp add: scenario_env_def)



lemma scenario_track_n_neq:
  "m \<noteq> n \<Longrightarrow> scenario_track_n m \<noteq> scenario_track_n n"
  "0 < n \<Longrightarrow> scenario_track \<noteq> scenario_track_n n"
  "n \<noteq> 10 \<Longrightarrow> unnumbered_track \<noteq> scenario_track_n n"
  "scenario_track \<noteq> unnumbered_track"
  by (auto simp: scenario_track_n_def unnumbered_track_def scenario_track_def)

lemmas scenario_track_neq = scenario_track_n_neq scenario_track_n_neq [THEN not_sym]

lemma scenario_track_keys:
  "track_key scenario_track = (Some 1, Some ''Title'')"
  "track_key (scenario_track_n n) = (Some (int n), Some ''Title'')"
  "track_key unnumbered_track = (None, Some ''Other'')"
  by (simp_all add: track_key_def scenario_track_n_def unnumbered_track_def scenario_track_def)

text \<open>
  The costs of the scenarios: the local item 1 is at distance 0 from the canonical
  track 1 and further from every other track, and the local items 2 and 3 are further
  from the canonical track 1 than the local item 1 is. So the pairing of the item 1
  with the track 1 is the one of least cost.
\<close>

lemma scenario_costs:
  "score (distance_weights scenario_config)
     (track_distance scenario_config scenario_env (scenario_item 1 ''Artist X'' '''') scenario_track False) = 0"
  "score (distance_weights scenario_config)
     (track_distance scenario_config scenario_env (scenario_item 2 ''Artist X'' '''') scenario_track False) = 1 / 3"
  "score (distance_weights scenario_config)
     (track_distance scenario_config scenario_env (scenario_item 3 ''Artist X'' '''') scenario_track False) = 1 / 3"
  "score (distance_weights scenario_config)
     (track_distance scenario_config scenario_env (scenario_item 1 ''Artist X'' '''') (scenario_track_n 2) False) = 1 / 3"
  "score (distance_weights scenario_config)
     (track_distance scenario_config scenario_env (scenario_item 1 ''Artist X'' '''') (scenario_track_n 3) False) = 1 / 3"
  "score (distance_weights scenario_config)
     (track_distance scenario_config scenario_env (scenario_item 1 ''Artist X'' '''') unnumbered_track False) = 1 / 2"
  by (simp_all add: track_distance_def Let_def scenario_config_def scenario_env_def scenario_item_def
      scenario_track_def scenario_track_n_def unnumbered_track_def add_string_def add_expr_def add_def
      update_def empty_distance_def truthy_num_def track_index_changed_def score_def
      max_distance_def raw_distance_def)


text \<open>
  The claim as it was stated, refuted: one local item and three canonical tracks, of
  which the pairing of least cost takes the first. The two tracks left over have the
  indices \<^verbatim>\<open>None\<close> and 2, the sort of the extra tracks compares them, and the call ends
  in a TypeError instead of a partition.
\<close>

theorem assign_items_counterexample:
  "assign_items scenario_config scenario_env [scenario_item 1 ''Artist X'' '''']
     [scenario_track, unnumbered_track, scenario_track_n 2] = Inl TypeError"
  by (simp add: assign_items_def scenario_lapjv in_order_solver_def py_index_def
      sort_tracks_def scenario_track_keys scenario_track_neq)

section \<open>Properties of the consensus extractor\<close>

lemma fold_most_common:
  "fold (\<lambda>y best. if f best < f y then y else best) ys b \<in> insert b (set ys)
   \<and> f b \<le> f (fold (\<lambda>y best. if f best < f y then y else best) ys b)
   \<and> (\<forall>y \<in> set ys. f y \<le> f (fold (\<lambda>y best. if f best < f y then y else best) ys b))"
  for f :: "'a \<Rightarrow> nat"
proof (induction ys arbitrary: b)
  case Nil
  show ?case by simp
next
  case (Cons y ys)
  let ?b = "if f b < f y then y else b"
  from Cons [of ?b] show ?case
    by (auto simp: le_trans less_imp_le_nat split: if_splits)
qed

lemma likely_most_frequent: "most_frequent (likely x xs) (x # xs)"
proof -
  let ?objs = "x # xs"
  let ?r = "fold (\<lambda>y best. if count_list ?objs best < count_list ?objs y then y else best) ?objs x"
  note f = fold_most_common [where f = "count_list ?objs" and b = x and ys = ?objs]
  from f have "?r \<in> insert x (set ?objs)" by (rule conjunct1)
  moreover have "insert x (set ?objs) = set ?objs" by auto
  ultimately have 1: "?r \<in> set ?objs" by (simp only:)
  from f have 2: "\<forall>y \<in> set ?objs. count_list ?objs y \<le> count_list ?objs ?r"
    by (rule conjunct2 [THEN conjunct2])
  have "likely x xs = ?r" by (simp only: likely_def plurality_def Let_def fst_conv)
  with 1 2 show ?thesis unfolding most_frequent_def by (simp only: simp_thms)
qed

lemma count_list_length: "count_list vs v = length vs \<longleftrightarrow> (\<forall>y \<in> set vs. y = v)"
proof (induction vs)
  case Nil
  show ?case by simp
next
  case (Cons a vs)
  have "count_list vs v \<le> length vs" by (rule count_le_length)
  with Cons show ?case by auto
qed

lemma agreed_unanimous: "agreed x xs \<longleftrightarrow> unanimous (x # xs)"
proof -
  have m: "most_frequent (likely x xs) (x # xs)" by (rule likely_most_frequent)
  have "agreed x xs \<longleftrightarrow> count_list (x # xs) (likely x xs) = length (x # xs)"
    by (simp add: agreed_def likely_def plurality_def Let_def)
  also have "\<dots> \<longleftrightarrow> (\<forall>y \<in> set (x # xs). y = likely x xs)"
    by (rule count_list_length)
  also have "\<dots> \<longleftrightarrow> unanimous (x # xs)"
    using m unfolding unanimous_def most_frequent_def by metis
  finally show ?thesis .
qed

lemma current_metadata_Cons:
  "\<exists>likelies consensus. current_metadata (item # rest) = Inr (likelies, consensus)
     \<and> Consensus.artist consensus = agreed (Item.artist item) (map Item.artist rest)
     \<and> Consensus.album consensus = agreed (Item.album item) (map Item.album rest)
     \<and> Consensus.albumartist consensus = agreed (Item.albumartist item) (map Item.albumartist rest)
     \<and> Consensus.year consensus = agreed (Item.year item) (map Item.year rest)
     \<and> Consensus.disctotal consensus = agreed (Item.disctotal item) (map Item.disctotal rest)
     \<and> Consensus.mb_albumid consensus = agreed (Item.mb_albumid item) (map Item.mb_albumid rest)
     \<and> Consensus.label consensus = agreed (Item.label item) (map Item.label rest)
     \<and> Consensus.barcode consensus = agreed (Item.barcode item) (map Item.barcode rest)
     \<and> Consensus.catalognum consensus = agreed (Item.catalognum item) (map Item.catalognum rest)
     \<and> Consensus.country consensus = agreed (Item.country item) (map Item.country rest)
     \<and> Consensus.media consensus = agreed (Item.media item) (map Item.media rest)
     \<and> Consensus.albumdisambig consensus = agreed (Item.albumdisambig item) (map Item.albumdisambig rest)
     \<and> Likelies.album likelies = likely (Item.album item) (map Item.album rest)
     \<and> Likelies.albumartist likelies = likely (Item.albumartist item) (map Item.albumartist rest)
     \<and> Likelies.year likelies = likely (Item.year item) (map Item.year rest)
     \<and> Likelies.disctotal likelies = likely (Item.disctotal item) (map Item.disctotal rest)
     \<and> Likelies.mb_albumid likelies = likely (Item.mb_albumid item) (map Item.mb_albumid rest)
     \<and> Likelies.label likelies = likely (Item.label item) (map Item.label rest)
     \<and> Likelies.barcode likelies = likely (Item.barcode item) (map Item.barcode rest)
     \<and> Likelies.catalognum likelies = likely (Item.catalognum item) (map Item.catalognum rest)
     \<and> Likelies.country likelies = likely (Item.country item) (map Item.country rest)
     \<and> Likelies.media likelies = likely (Item.media item) (map Item.media rest)
     \<and> Likelies.albumdisambig likelies = likely (Item.albumdisambig item) (map Item.albumdisambig rest)
     \<and> Likelies.artist likelies =
         (if Consensus.albumartist consensus \<and> Likelies.albumartist likelies \<noteq> []
          then Likelies.albumartist likelies
          else likely (Item.artist item) (map Item.artist rest))"
  by (simp add: Let_def)

text \<open>
  Claim C5. \<^verbatim>\<open>current_metadata\<close> fails on an empty sequence; on a non-empty one it
  returns, the unanimity flag of each of the twelve fields is true if and only if the
  values of all records for that field are identical, the likely value of each field
  other than the artist is a most frequent one among the values present, and the likely
  artist is the likely album artist when the album artist is unanimous and not empty,
  and a most frequent track artist otherwise.
\<close>

theorem current_metadata_consensus:
  "current_metadata [] = Inl AssertionError
   \<and> (items \<noteq> [] \<longrightarrow>
       (\<exists>likelies consensus. current_metadata items = Inr (likelies, consensus)
          \<and> (Consensus.artist consensus \<longleftrightarrow> unanimous (map Item.artist items))
          \<and> (Consensus.album consensus \<longleftrightarrow> unanimous (map Item.album items))
          \<and> (Consensus.albumartist consensus \<longleftrightarrow> unanimous (map Item.albumartist items))
          \<and> (Consensus.year consensus \<longleftrightarrow> unanimous (map Item.year items))
          \<and> (Consensus.disctotal consensus \<longleftrightarrow> unanimous (map Item.disctotal items))
          \<and> (Consensus.mb_albumid consensus \<longleftrightarrow> unanimous (map Item.mb_albumid items))
          \<and> (Consensus.label consensus \<longleftrightarrow> unanimous (map Item.label items))
          \<and> (Consensus.barcode consensus \<longleftrightarrow> unanimous (map Item.barcode items))
          \<and> (Consensus.catalognum consensus \<longleftrightarrow> unanimous (map Item.catalognum items))
          \<and> (Consensus.country consensus \<longleftrightarrow> unanimous (map Item.country items))
          \<and> (Consensus.media consensus \<longleftrightarrow> unanimous (map Item.media items))
          \<and> (Consensus.albumdisambig consensus \<longleftrightarrow> unanimous (map Item.albumdisambig items))
          \<and> most_frequent (Likelies.album likelies) (map Item.album items)
          \<and> most_frequent (Likelies.albumartist likelies) (map Item.albumartist items)
          \<and> most_frequent (Likelies.year likelies) (map Item.year items)
          \<and> most_frequent (Likelies.disctotal likelies) (map Item.disctotal items)
          \<and> most_frequent (Likelies.mb_albumid likelies) (map Item.mb_albumid items)
          \<and> most_frequent (Likelies.label likelies) (map Item.label items)
          \<and> most_frequent (Likelies.barcode likelies) (map Item.barcode items)
          \<and> most_frequent (Likelies.catalognum likelies) (map Item.catalognum items)
          \<and> most_frequent (Likelies.country likelies) (map Item.country items)
          \<and> most_frequent (Likelies.media likelies) (map Item.media items)
          \<and> most_frequent (Likelies.albumdisambig likelies) (map Item.albumdisambig items)
          \<and> (if Consensus.albumartist consensus \<and> Likelies.albumartist likelies \<noteq> []
              then Likelies.artist likelies = Likelies.albumartist likelies
              else most_frequent (Likelies.artist likelies) (map Item.artist items))))"
proof (intro conjI impI)
  show "current_metadata [] = Inl AssertionError" by simp
next
  assume "items \<noteq> []"
  then obtain item rest where items: "items = item # rest" by (cases items) auto
  from current_metadata_Cons [of item rest] obtain likelies consensus where
    c: "current_metadata (item # rest) = Inr (likelies, consensus)"
    and p: "Consensus.artist consensus = agreed (Item.artist item) (map Item.artist rest)"
     "Consensus.album consensus = agreed (Item.album item) (map Item.album rest)"
     "Consensus.albumartist consensus = agreed (Item.albumartist item) (map Item.albumartist rest)"
     "Consensus.year consensus = agreed (Item.year item) (map Item.year rest)"
     "Consensus.disctotal consensus = agreed (Item.disctotal item) (map Item.disctotal rest)"
     "Consensus.mb_albumid consensus = agreed (Item.mb_albumid item) (map Item.mb_albumid rest)"
     "Consensus.label consensus = agreed (Item.label item) (map Item.label rest)"
     "Consensus.barcode consensus = agreed (Item.barcode item) (map Item.barcode rest)"
     "Consensus.catalognum consensus = agreed (Item.catalognum item) (map Item.catalognum rest)"
     "Consensus.country consensus = agreed (Item.country item) (map Item.country rest)"
     "Consensus.media consensus = agreed (Item.media item) (map Item.media rest)"
     "Consensus.albumdisambig consensus = agreed (Item.albumdisambig item) (map Item.albumdisambig rest)"
     "Likelies.album likelies = likely (Item.album item) (map Item.album rest)"
     "Likelies.albumartist likelies = likely (Item.albumartist item) (map Item.albumartist rest)"
     "Likelies.year likelies = likely (Item.year item) (map Item.year rest)"
     "Likelies.disctotal likelies = likely (Item.disctotal item) (map Item.disctotal rest)"
     "Likelies.mb_albumid likelies = likely (Item.mb_albumid item) (map Item.mb_albumid rest)"
     "Likelies.label likelies = likely (Item.label item) (map Item.label rest)"
     "Likelies.barcode likelies = likely (Item.barcode item) (map Item.barcode rest)"
     "Likelies.catalognum likelies = likely (Item.catalognum item) (map Item.catalognum rest)"
     "Likelies.country likelies = likely (Item.country item) (map Item.country rest)"
     "Likelies.media likelies = likely (Item.media item) (map Item.media rest)"
     "Likelies.albumdisambig likelies = likely (Item.albumdisambig item) (map Item.albumdisambig rest)"
    and a: "Likelies.artist likelies =
         (if Consensus.albumartist consensus \<and> Likelies.albumartist likelies \<noteq> []
          then Likelies.albumartist likelies
          else likely (Item.artist item) (map Item.artist rest))"
    by (elim exE conjE) (rule that; assumption)
  have art: "if Consensus.albumartist consensus \<and> Likelies.albumartist likelies \<noteq> []
              then Likelies.artist likelies = Likelies.albumartist likelies
              else most_frequent (Likelies.artist likelies) (map Item.artist (item # rest))"
    using a likely_most_frequent [of "Item.artist item" "map Item.artist rest"]
    by (simp split: if_splits)
  show "\<exists>likelies consensus. current_metadata items = Inr (likelies, consensus)
          \<and> (Consensus.artist consensus \<longleftrightarrow> unanimous (map Item.artist items))
          \<and> (Consensus.album consensus \<longleftrightarrow> unanimous (map Item.album items))
          \<and> (Consensus.albumartist consensus \<longleftrightarrow> unanimous (map Item.albumartist items))
          \<and> (Consensus.year consensus \<longleftrightarrow> unanimous (map Item.year items))
          \<and> (Consensus.disctotal consensus \<longleftrightarrow> unanimous (map Item.disctotal items))
          \<and> (Consensus.mb_albumid consensus \<longleftrightarrow> unanimous (map Item.mb_albumid items))
          \<and> (Consensus.label consensus \<longleftrightarrow> unanimous (map Item.label items))
          \<and> (Consensus.barcode consensus \<longleftrightarrow> unanimous (map Item.barcode items))
          \<and> (Consensus.catalognum consensus \<longleftrightarrow> unanimous (map Item.catalognum items))
          \<and> (Consensus.country consensus \<longleftrightarrow> unanimous (map Item.country items))
          \<and> (Consensus.media consensus \<longleftrightarrow> unanimous (map Item.media items))
          \<and> (Consensus.albumdisambig consensus \<longleftrightarrow> unanimous (map Item.albumdisambig items))
          \<and> most_frequent (Likelies.album likelies) (map Item.album items)
          \<and> most_frequent (Likelies.albumartist likelies) (map Item.albumartist items)
          \<and> most_frequent (Likelies.year likelies) (map Item.year items)
          \<and> most_frequent (Likelies.disctotal likelies) (map Item.disctotal items)
          \<and> most_frequent (Likelies.mb_albumid likelies) (map Item.mb_albumid items)
          \<and> most_frequent (Likelies.label likelies) (map Item.label items)
          \<and> most_frequent (Likelies.barcode likelies) (map Item.barcode items)
          \<and> most_frequent (Likelies.catalognum likelies) (map Item.catalognum items)
          \<and> most_frequent (Likelies.country likelies) (map Item.country items)
          \<and> most_frequent (Likelies.media likelies) (map Item.media items)
          \<and> most_frequent (Likelies.albumdisambig likelies) (map Item.albumdisambig items)
          \<and> (if Consensus.albumartist consensus \<and> Likelies.albumartist likelies \<noteq> []
              then Likelies.artist likelies = Likelies.albumartist likelies
              else most_frequent (Likelies.artist likelies) (map Item.artist items))"
    unfolding items
    apply (rule exI [of _ likelies], rule exI [of _ consensus])
    apply (intro conjI)
    apply (rule c)
    apply (simp_all only: p agreed_unanimous likely_most_frequent list.map simp_thms)
    apply (insert art)
    apply (simp add: p agreed_unanimous split: if_splits)
    done
qed

lemma scenario_ten_fields:
  "map Item.artist scenario_ten_items = [''A'', ''B'', ''C'', ''D'', ''E'', ''F'', ''G'', ''H'', ''I'', ''J'']"
  "map Item.albumartist scenario_ten_items = replicate 10 ''Artist X''"
  "length scenario_ten_items = 10"
  by (simp_all add: scenario_ten_items_def scenario_item_def numeral_nat)

theorem current_metadata_consensus_witness:
  "length scenario_ten_items = 10
   \<and> (\<exists>likelies consensus. current_metadata scenario_ten_items = Inr (likelies, consensus)
        \<and> Likelies.artist likelies = ''Artist X''
        \<and> \<not> Consensus.artist consensus
        \<and> Consensus.albumartist consensus)"
proof -
  have ne: "scenario_ten_items \<noteq> []" by (simp add: scenario_ten_items_def)
  have u1: "\<not> unanimous (map Item.artist scenario_ten_items)"
    unfolding scenario_ten_fields unanimous_def by (simp add: exI [of _ "''A''"])
  have u2: "unanimous (map Item.albumartist scenario_ten_items)"
    unfolding scenario_ten_fields unanimous_def by simp
  from current_metadata_consensus [of scenario_ten_items, THEN conjunct2, THEN mp, OF ne]
  obtain likelies consensus where c: "current_metadata scenario_ten_items = Inr (likelies, consensus)"
    and a: "Consensus.artist consensus \<longleftrightarrow> unanimous (map Item.artist scenario_ten_items)"
    and b: "Consensus.albumartist consensus \<longleftrightarrow> unanimous (map Item.albumartist scenario_ten_items)"
    and m: "most_frequent (Likelies.albumartist likelies) (map Item.albumartist scenario_ten_items)"
    and i: "if Consensus.albumartist consensus \<and> Likelies.albumartist likelies \<noteq> []
              then Likelies.artist likelies = Likelies.albumartist likelies
              else most_frequent (Likelies.artist likelies) (map Item.artist scenario_ten_items)"
    by (elim exE conjE) (rule that; assumption)
  from m have l: "Likelies.albumartist likelies = ''Artist X''"
    unfolding scenario_ten_fields most_frequent_def by simp
  with i b u2 have "Likelies.artist likelies = ''Artist X''" by simp
  with c a b u1 u2 scenario_ten_fields(3) show ?thesis by blast
qed

section \<open>Properties of the lookup by album id\<close>

lemma match_by_id_filter:
  "match_by_id e items = match_by_id e (filter (\<lambda>item. Item.mb_albumid item \<noteq> []) items)"
  by (simp add: match_by_id_def)

lemma match_by_id_disagree:
  assumes "i \<in> set items" "j \<in> set items" "Item.mb_albumid i \<noteq> []" "Item.mb_albumid j \<noteq> []"
    "Item.mb_albumid i \<noteq> Item.mb_albumid j"
  shows "match_by_id e items = (None, [])"
proof -
  let ?ids = "map Item.mb_albumid (filter (\<lambda>item. Item.mb_albumid item \<noteq> []) items)"
  from assms have m: "Item.mb_albumid i \<in> set ?ids" "Item.mb_albumid j \<in> set ?ids" by auto
  then obtain first others where ids: "?ids = first # others" by (cases ?ids) auto
  with m assms(5) have "\<exists>other \<in> set others. other \<noteq> first"
    by (metis set_ConsD)
  with ids show ?thesis by (simp add: match_by_id_def)
qed

lemma match_by_id_agree:
  assumes "i \<in> set items" "Item.mb_albumid i \<noteq> []"
    and "\<forall>j \<in> set items. Item.mb_albumid j \<noteq> [] \<longrightarrow> Item.mb_albumid j = Item.mb_albumid i"
  shows "match_by_id e items = (album_for_mbid e (Item.mb_albumid i), [Item.mb_albumid i])"
proof -
  let ?ids = "map Item.mb_albumid (filter (\<lambda>item. Item.mb_albumid item \<noteq> []) items)"
  from assms(1,2) have m: "Item.mb_albumid i \<in> set ?ids" by simp
  have all: "x = Item.mb_albumid i" if "x \<in> set ?ids" for x
  proof -
    from that obtain j where "j \<in> set items" "Item.mb_albumid j \<noteq> []" "x = Item.mb_albumid j"
      by auto
    with assms(3) show ?thesis by blast
  qed
  from m obtain first others where ids: "?ids = first # others" by (cases ?ids) auto
  have f: "first = Item.mb_albumid i" by (rule all) (simp add: ids)
  have "other = first" if "other \<in> set others" for other
    unfolding f by (rule all) (simp add: ids that)
  then have "\<not> (\<exists>other \<in> set others. other \<noteq> first)" by blast
  with ids f show ?thesis by (simp add: match_by_id_def)
qed

lemma match_by_id_no_ids:
  assumes "\<forall>i \<in> set items. Item.mb_albumid i = []"
  shows "match_by_id e items = (None, [])"
proof -
  from assms have "filter (\<lambda>item. Item.mb_albumid item \<noteq> []) items = []"
    by (simp add: filter_empty_conv)
  then show ?thesis by (simp add: match_by_id_def)
qed

text \<open>
  Claim C6, as amended. \<^verbatim>\<open>match_by_id\<close> looks at the records that carry an album id
  and ignores those without one: when two records carry different ids it returns
  \<^verbatim>\<open>None\<close> and calls no lookup; when the ids carried agree (and there is one) it looks
  that id up, once; when no record carries an id it returns \<^verbatim>\<open>None\<close> and calls no
  lookup.
\<close>

theorem match_by_id_consensus:
  "((\<exists>i \<in> set items. \<exists>j \<in> set items. Item.mb_albumid i \<noteq> [] \<and> Item.mb_albumid j \<noteq> []
        \<and> Item.mb_albumid i \<noteq> Item.mb_albumid j) \<longrightarrow>
      match_by_id e items = (None, []))
   \<and> match_by_id e items = match_by_id e (filter (\<lambda>item. Item.mb_albumid item \<noteq> []) items)
   \<and> (i \<in> set items \<and> Item.mb_albumid i \<noteq> []
        \<and> (\<forall>j \<in> set items. Item.mb_albumid j \<noteq> [] \<longrightarrow> Item.mb_albumid j = Item.mb_albumid i) \<longrightarrow>
      match_by_id e items = (album_for_mbid e (Item.mb_albumid i), [Item.mb_albumid i]))
   \<and> ((\<forall>i \<in> set items. Item.mb_albumid i = []) \<longrightarrow> match_by_id e items = (None, []))"
  using match_by_id_disagree [of _ items _ e] match_by_id_agree [of i items e]
    match_by_id_no_ids [of items e] match_by_id_filter [of e items]
  by blast

lemma scenario_item_mb_albumid: "Item.mb_albumid (scenario_item n a albumid) = albumid"
  by (simp add: scenario_item_def)

lemma lookup_env_A1: "album_for_mbid lookup_env ''A1'' = Some (scenario_album (Some ''A1''))"
  by (simp add: lookup_env_def)

text \<open>
  The claim as stated fails: a record with the id "A1" and a record without an id
  disagree on the album id, and yet the lookup is made and its result returned.
\<close>

theorem match_by_id_counterexample:
  "Item.mb_albumid (scenario_item 1 ''A'' ''A1'') \<noteq> Item.mb_albumid (scenario_item 2 ''A'' '''')
   \<and> match_by_id lookup_env [scenario_item 1 ''A'' ''A1'', scenario_item 2 ''A'' '''']
       = (Some (scenario_album (Some ''A1'')), [''A1''])"
  by (simp add: match_by_id_def scenario_item_mb_albumid lookup_env_A1)

theorem match_by_id_consensus_witness:
  "match_by_id lookup_env
     [scenario_item 1 ''A'' ''A1'', scenario_item 2 ''A'' ''A1'', scenario_item 3 ''A'' ''A1'',
      scenario_item 4 ''A'' ''A2'']
   = (None, [])
   \<and> match_by_id lookup_env [scenario_item 1 ''A'' ''A1'', scenario_item 2 ''A'' ''A1'']
       = (Some (scenario_album (Some ''A1'')), [''A1''])
   \<and> match_by_id lookup_env [scenario_item 1 ''A'' '''', scenario_item 2 ''A'' '''']
       = (None, [])"
proof -
  let ?four = "[scenario_item 1 ''A'' ''A1'', scenario_item 2 ''A'' ''A1'',
      scenario_item 3 ''A'' ''A1'', scenario_item 4 ''A'' ''A2'']"
  let ?two = "[scenario_item 1 ''A'' ''A1'', scenario_item 2 ''A'' ''A1'']"
  let ?none = "[scenario_item 1 ''A'' '''', scenario_item 2 ''A'' '''']"
  have 1: "match_by_id lookup_env ?four = (None, [])"
    using match_by_id_consensus [of ?four lookup_env]
    by (simp add: scenario_item_mb_albumid)
  have 2: "match_by_id lookup_env ?two = (Some (scenario_album (Some ''A1'')), [''A1''])"
    using match_by_id_consensus [of ?two lookup_env "scenario_item 1 ''A'' ''A1''"]
    by (simp add: scenario_item_mb_albumid lookup_env_A1)
  have 3: "match_by_id lookup_env ?none = (None, [])"
    using match_by_id_consensus [of ?none lookup_env, THEN conjunct2, THEN conjunct2, THEN conjunct2]
    by (simp add: scenario_item_mb_albumid)
  from 1 2 3 show ?thesis by (intro conjI)
qed

end
